theory Spec2Isabelle
  imports Complex_Main "HOL-Library.Sublist" "HOL-Library.Product_Lexorder"
    "HOL-Library.Multiset"
begin

section \<open>Python values\<close>

text \<open>
  The program is \<^verbatim>\<open>YouDownloader.py\<close>. Its data are Python dictionaries read with
  \<^verbatim>\<open>d.get(k)\<close>, \<^verbatim>\<open>d.get(k, default)\<close> and \<^verbatim>\<open>d[k]\<close>. A key of a
  dictionary is in one of three states: not in the dictionary, in it with the value
  \<^verbatim>\<open>None\<close>, or in it with a proper value. The three states behave differently
  (\<^verbatim>\<open>d.get(k, '')\<close> is \<^verbatim>\<open>''\<close> for a missing key and \<^verbatim>\<open>None\<close> for a key
  holding \<^verbatim>\<open>None\<close>), so the model keeps all three.

  The value of a Python expression that may be \<^verbatim>\<open>None\<close> is an \<open>option\<close>, with
  \<open>None\<close> for Python's \<^verbatim>\<open>None\<close>.

  Text is a list of characters, one \<open>char\<close> for one code point below 256; the degree
  sign of the tag names is the code point 176.

  A number is an integer or a float. A float is given by its value, a rational number, and
  by the text that \<^verbatim>\<open>str\<close> and \<^verbatim>\<open>repr\<close> write for it: the float
  \<^verbatim>\<open>30.0\<close> is \<open>PyFloat 30 ''30.0''\<close>, and it is equal to the integer
  \<^verbatim>\<open>30\<close> for every comparison of Python while its text is another. The values that
  are not numbers (\<^verbatim>\<open>nan\<close>, the infinities) are left out.
\<close>

datatype number = PyInt int | PyFloat rat string

fun num_value :: "number \<Rightarrow> rat" where
  "num_value (PyInt n) = of_int n"
| "num_value (PyFloat v t) = v"

datatype 'a field = Missing | PyNone | Val 'a

datatype error = AttributeError | TypeError | KeyError

text \<open>\<^verbatim>\<open>d.get(k)\<close>\<close>

fun get :: "'a field \<Rightarrow> 'a option" where
  "get Missing = None"
| "get PyNone = None"
| "get (Val v) = Some v"

text \<open>\<^verbatim>\<open>d.get(k, dflt)\<close>: the default replaces a missing key only.\<close>

fun get_default :: "'a field \<Rightarrow> 'a \<Rightarrow> 'a option" where
  "get_default Missing dflt = Some dflt"
| "get_default PyNone dflt = None"
| "get_default (Val v) dflt = Some v"

text \<open>\<^verbatim>\<open>d[k]\<close>\<close>

fun subscript :: "'a field \<Rightarrow> error + 'a option" where
  "subscript Missing = Inl KeyError"
| "subscript PyNone = Inr None"
| "subscript (Val v) = Inr (Some v)"

text \<open>Storing the value of an expression under a key of a new dictionary.\<close>

fun store :: "'a option \<Rightarrow> 'a field" where
  "store None = PyNone"
| "store (Some v) = Val v"

text \<open>
  The truth value of a number or \<^verbatim>\<open>None\<close>: false for \<^verbatim>\<open>None\<close> and for a number
  whose value is zero.
\<close>

fun truthy :: "number option \<Rightarrow> bool" where
  "truthy None = False"
| "truthy (Some v) = (num_value v \<noteq> 0)"

text \<open>\<^verbatim>\<open>x or 0\<close> on a number or \<^verbatim>\<open>None\<close>: \<^verbatim>\<open>x\<close> when it is true, the integer 0 otherwise.\<close>

definition or0 :: "number option \<Rightarrow> number" where
  "or0 x = (if truthy x then (case x of Some v \<Rightarrow> v | None \<Rightarrow> PyInt 0) else PyInt 0)"

fun truthy_list :: "'a list option \<Rightarrow> bool" where
  "truthy_list None = False"
| "truthy_list (Some v) = (v \<noteq> [])"

text \<open>
  \<^verbatim>\<open>str.lower()\<close> on code points below 256: the letters A to Z and the capital letters
  of the upper half (192 to 222 without the multiplication sign 215) move up by 32.
\<close>

definition lower_char :: "char \<Rightarrow> char" where
  "lower_char c = (let n = (of_char c :: int) in
     if (65 \<le> n \<and> n \<le> 90) \<or> (192 \<le> n \<and> n \<le> 222 \<and> n \<noteq> 215)
     then char_of (n + 32) else c)"

definition lower :: "string \<Rightarrow> string" where
  "lower s = map lower_char s"

text \<open>\<^verbatim>\<open>x.lower()\<close> where \<^verbatim>\<open>x\<close> may be \<^verbatim>\<open>None\<close>, which has no such method.\<close>

fun lower_of :: "string option \<Rightarrow> error + string" where
  "lower_of None = Inl AttributeError"
| "lower_of (Some s) = Inr (lower s)"

text \<open>\<^verbatim>\<open>x[:n]\<close> where \<^verbatim>\<open>x\<close> may be \<^verbatim>\<open>None\<close>, which cannot be sliced.\<close>

fun slice_to :: "nat \<Rightarrow> string option \<Rightarrow> error + string" where
  "slice_to n None = Inl TypeError"
| "slice_to n (Some s) = Inr (take n s)"

text \<open>\<^verbatim>\<open>keyword in text\<close> is \<^term>\<open>sublist keyword text\<close>.\<close>

section \<open>Format dictionaries and video metadata\<close>

text \<open>
  One record stands for the format dictionaries of the program: the raw descriptors of
  the extraction backend and the entries \<^verbatim>\<open>get_video_info\<close> builds from them, which
  add the keys \<^verbatim>\<open>type\<close> and \<^verbatim>\<open>video_types\<close>. The program reads
  \<^verbatim>\<open>fmt['format_id']\<close> and \<^verbatim>\<open>fmt['ext']\<close> without a default: they are the
  required text fields. Every other key is optional.
\<close>

record fmt =
  format_id :: string
  ext :: string
  resolution :: "string field"
  height :: "number field"
  width :: "number field"
  filesize :: "number field"
  vcodec :: "string field"
  acodec :: "string field"
  fps :: "number field"
  vbr :: "number field"
  abr :: "number field"
  type :: "string field"
  video_types :: "string list field"
  format_note :: "string field"

text \<open>
  The metadata dictionary. \<open>None\<close> of type \<open>info option\<close> is a metadata value that
  Python takes as false (\<^verbatim>\<open>None\<close> or an empty dictionary).
\<close>

record info =
  title :: "string field"
  description :: "string field"
  formats :: "fmt list field"

text \<open>The descriptor that has the two required fields and no other key.\<close>

definition descriptor :: "string \<Rightarrow> string \<Rightarrow> fmt" where
  "descriptor fid e =
     \<lparr>format_id = fid, ext = e, resolution = Missing, height = Missing, width = Missing,
      filesize = Missing, vcodec = Missing, acodec = Missing, fps = Missing, vbr = Missing,
      abr = Missing, type = Missing, video_types = Missing, format_note = Missing\<rparr>"

section \<open>Tag names\<close>

definition deg :: char where
  "deg = CHR 0xB0"

definition ThreeD :: string where "ThreeD = ''3D''"
definition SBS3D :: string where "SBS3D = ''SBS-3D''"
definition TB3D :: string where "TB3D = ''TB-3D''"
definition Anaglyph3D :: string where "Anaglyph3D = ''Anaglyph-3D''"
definition DualFisheye3D :: string where "DualFisheye3D = ''DualFisheye-3D''"
definition VR360 :: string where "VR360 = ''360'' @ [deg]"
definition VR :: string where "VR = ''VR''"
definition VR360EQR :: string where "VR360EQR = ''360'' @ [deg] @ ''-EQR''"
definition VR180 :: string where "VR180 = ''180'' @ [deg]"
definition HDR :: string where "HDR = ''HDR''"
definition Combined3D180VR :: string where
  "Combined3D180VR = ''3D-180'' @ [deg] @ ''-VR''"

definition stereo_family :: "string list" where
  "stereo_family = [ThreeD, SBS3D, TB3D, Anaglyph3D, DualFisheye3D]"

definition independent_tags :: "string list" where
  "independent_tags = [HDR, VR360, VR, VR360EQR]"

section \<open>detect_video_type\<close>

definition stereo_keywords :: "(string \<times> string) list" where
  "stereo_keywords =
    [(''3d'', ThreeD),
     (''stereoscopic'', ThreeD),
     (''stereo'', ThreeD),
     (''sbs'', SBS3D),
     (''side by side'', SBS3D),
     (''side-by-side'', SBS3D),
     (''top bottom'', TB3D),
     (''top-bottom'', TB3D),
     (''anaglyph'', Anaglyph3D),
     (''dual fisheye'', DualFisheye3D)]"

definition vr_keywords :: "(string \<times> string) list" where
  "vr_keywords =
    [(''360'', VR360),
     (''vr'', VR),
     (''virtual reality'', VR),
     (''spherical'', VR360),
     (''equirectangular'', VR360EQR)]"

definition vr180_keywords :: "string list" where
  "vr180_keywords = [''180'', ''vr180'', ''half sphere'', ''hemispherical'']"

definition hdr_keywords :: "string list" where
  "hdr_keywords = [''hdr'', ''hdr10'', ''hdr10+'', ''dolby vision'', ''high dynamic range'',
                   ''rec2020'', ''bt2020'']"

text \<open>
  The first loop: the keywords in the order of the dictionary literal, one tag appended at
  the first keyword found in the note, the title or the description, then \<^verbatim>\<open>break\<close>.
\<close>

fun stereo_scan ::
  "(string \<times> string) list \<Rightarrow> string \<Rightarrow> string \<Rightarrow> string \<Rightarrow> string list \<Rightarrow> string list" where
  "stereo_scan [] note ttl desc video_type = video_type"
| "stereo_scan ((keyword, format_type) # rest) note ttl desc video_type =
     (if sublist keyword note \<or> sublist keyword ttl \<or> sublist keyword desc
      then video_type @ [format_type]
      else stereo_scan rest note ttl desc video_type)"

text \<open>The second loop: every keyword is tried, a tag is appended unless it is there.\<close>

fun vr_scan ::
  "(string \<times> string) list \<Rightarrow> string \<Rightarrow> string \<Rightarrow> string \<Rightarrow> string list \<Rightarrow> string list" where
  "vr_scan [] note ttl desc video_type = video_type"
| "vr_scan ((keyword, format_type) # rest) note ttl desc video_type =
     vr_scan rest note ttl desc
       (if sublist keyword note \<or> sublist keyword ttl \<or> sublist keyword desc
        then (if format_type \<notin> set video_type then video_type @ [format_type] else video_type)
        else video_type)"

fun vr180_scan ::
  "string list \<Rightarrow> string \<Rightarrow> string \<Rightarrow> string \<Rightarrow> string list \<Rightarrow> string list" where
  "vr180_scan [] note ttl desc video_type = video_type"
| "vr180_scan (keyword # rest) note ttl desc video_type =
     vr180_scan rest note ttl desc
       (if sublist keyword note \<or> sublist keyword ttl \<or> sublist keyword desc
        then (if VR180 \<notin> set video_type then video_type @ [VR180] else video_type)
        else video_type)"

text \<open>The HDR loop reads the note and the format identifier only.\<close>

fun hdr_scan :: "string list \<Rightarrow> string \<Rightarrow> string \<Rightarrow> string list \<Rightarrow> string list" where
  "hdr_scan [] note fid video_type = video_type"
| "hdr_scan (keyword # rest) note fid video_type =
     hdr_scan rest note fid
       (if sublist keyword note \<or> sublist keyword fid
        then (if HDR \<notin> set video_type then video_type @ [HDR] else video_type)
        else video_type)"

text \<open>The tag list after the four loops, before the combination rule.\<close>

definition scan_tags :: "string \<Rightarrow> string \<Rightarrow> string \<Rightarrow> string \<Rightarrow> string list" where
  "scan_tags note fid ttl desc =
     hdr_scan hdr_keywords note fid
       (vr180_scan vr180_keywords note ttl desc
         (vr_scan vr_keywords note ttl desc
           (stereo_scan stereo_keywords note ttl desc [])))"

text \<open>
  The combination rule. \<^verbatim>\<open>'3D' in vtype\<close> is a test on the text of a tag,
  \<^verbatim>\<open>'180\<degree>' in video_type\<close> a test on the list.
\<close>

definition combine :: "string list \<Rightarrow> string list" where
  "combine video_type =
     (if list_ex (sublist ''3D'') video_type \<and> VR180 \<in> set video_type
      then [Combined3D180VR] @
           filter (\<lambda>vtype. \<not> sublist ''3D'' vtype \<and> vtype \<noteq> VR180) video_type
      else video_type)"

text \<open>
  The four texts the loops read, lower-cased:
  \<^verbatim>\<open>fmt.get('format_note', '').lower()\<close>, \<^verbatim>\<open>fmt.get('format_id', '').lower()\<close>,
  \<^verbatim>\<open>info.get('title', '').lower() if info else ''\<close> and the same for the description.
\<close>

definition ebind :: "error + 'a \<Rightarrow> ('a \<Rightarrow> error + 'b) \<Rightarrow> error + 'b" where
  "ebind m k = (case m of Inl e \<Rightarrow> Inl e | Inr x \<Rightarrow> k x)"

definition info_text :: "(info \<Rightarrow> string field) \<Rightarrow> info option \<Rightarrow> error + string" where
  "info_text key meta =
     (case meta of None \<Rightarrow> Inr '''' | Some i \<Rightarrow> lower_of (get_default (key i) ''''))"

definition detect_texts ::
  "fmt \<Rightarrow> info option \<Rightarrow> error + (string \<times> string \<times> string \<times> string)" where
  "detect_texts f meta =
     ebind (lower_of (get_default (format_note f) '''')) (\<lambda>note.
     ebind (lower_of (Some (format_id f))) (\<lambda>fid.
     ebind (info_text title meta) (\<lambda>ttl.
     ebind (info_text description meta) (\<lambda>desc.
     Inr (note, fid, ttl, desc)))))"

text \<open>The loops and the combination rule, on the four lower-cased texts.\<close>

fun detect_tags :: "string \<times> string \<times> string \<times> string \<Rightarrow> error + string list" where
  "detect_tags (note, fid, ttl, desc) = Inr (combine (scan_tags note fid ttl desc))"

definition detect_video_type :: "fmt \<Rightarrow> info option \<Rightarrow> error + string list" where
  "detect_video_type f meta = ebind (detect_texts f meta) detect_tags"

section \<open>Numbers and values in formatted text\<close>

text \<open>\<^verbatim>\<open>str(n)\<close> for an integer: the decimal digits, a minus sign before a negative one.\<close>

function str_digits :: "int \<Rightarrow> string" where
  "str_digits n =
     (if n < 10 then [char_of (48 + n)]
      else str_digits (n div 10) @ [char_of (48 + n mod 10)])"
  by pat_completeness auto
termination
  by (relation "measure nat") auto

declare str_digits.simps [simp del]

definition str_int :: "int \<Rightarrow> string" where
  "str_int i = (if i < 0 then ''-'' @ str_digits (- i) else str_digits i)"

text \<open>\<^verbatim>\<open>str(x)\<close> for a number: a float has its own text.\<close>

fun str_number :: "number \<Rightarrow> string" where
  "str_number (PyInt n) = str_int n"
| "str_number (PyFloat v t) = t"

text \<open>A number inside an f-string: \<^verbatim>\<open>None\<close> is written \<^verbatim>\<open>None\<close>.\<close>

fun fstr_num :: "number option \<Rightarrow> string" where
  "fstr_num None = ''None''"
| "fstr_num (Some v) = str_number v"

text \<open>\<^verbatim>\<open>sep.join(xs)\<close>\<close>

fun join :: "string \<Rightarrow> string list \<Rightarrow> string" where
  "join sep [] = []"
| "join sep [x] = x"
| "join sep (x # y # ys) = x @ sep @ join sep (y # ys)"

section \<open>get_enhanced_resolution_info\<close>

definition base_res :: "number \<Rightarrow> string" where
  "base_res h =
     (if num_value h \<ge> 4320 then ''8K''
      else if num_value h \<ge> 2160 then ''4K''
      else if num_value h \<ge> 1440 then ''2K''
      else if num_value h \<ge> 1080 then ''1080p''
      else if num_value h \<ge> 720 then ''720p''
      else str_number h @ ''p'')"

text \<open>
  \<^verbatim>\<open>if height and width\<close> holds when both are numbers other than zero: it is false
  for \<^verbatim>\<open>None\<close> and for the numbers 0 and 0.0. The result is a text, or \<^verbatim>\<open>None\<close>
  when the key \<^verbatim>\<open>resolution\<close> holds \<^verbatim>\<open>None\<close>.
\<close>

definition get_enhanced_resolution_info :: "fmt \<Rightarrow> string option" where
  "get_enhanced_resolution_info f =
     (case (get (height f), get (width f)) of
        (Some h, Some w) \<Rightarrow>
          if truthy (Some h) \<and> truthy (Some w)
          then Some (base_res h @ '' ('' @ str_number w @ ''x'' @ str_number h @ '')'')
          else get_default (resolution f) ''Unknown resolution''
      | _ \<Rightarrow> get_default (resolution f) ''Unknown resolution'')"

section \<open>get_video_info\<close>

text \<open>The three dictionaries built from a raw descriptor and its tag list.\<close>

definition video_audio_entry :: "fmt \<Rightarrow> string list \<Rightarrow> fmt" where
  "video_audio_entry f vts =
     \<lparr>format_id = format_id f,
      ext = ext f,
      resolution = store (get_default (resolution f) ''unknown''),
      height = store (get (height f)),
      width = store (get (width f)),
      filesize = store (get (filesize f)),
      vcodec = store (get_default (vcodec f) ''unknown''),
      acodec = store (get_default (acodec f) ''unknown''),
      fps = store (get (fps f)),
      vbr = store (get (vbr f)),
      abr = store (get (abr f)),
      type = Val ''video+audio'',
      video_types = Val vts,
      format_note = store (get_default (format_note f) '''')\<rparr>"

definition video_only_entry :: "fmt \<Rightarrow> string list \<Rightarrow> fmt" where
  "video_only_entry f vts =
     \<lparr>format_id = format_id f,
      ext = ext f,
      resolution = store (get_default (resolution f) ''unknown''),
      height = store (get (height f)),
      width = store (get (width f)),
      filesize = store (get (filesize f)),
      vcodec = store (get_default (vcodec f) ''unknown''),
      acodec = Missing,
      fps = store (get (fps f)),
      vbr = store (get (vbr f)),
      abr = Missing,
      type = Val ''video_only'',
      video_types = Val vts,
      format_note = store (get_default (format_note f) '''')\<rparr>"

definition audio_entry :: "fmt \<Rightarrow> fmt" where
  "audio_entry f =
     \<lparr>format_id = format_id f,
      ext = ext f,
      resolution = Missing,
      height = Missing,
      width = Missing,
      filesize = store (get (filesize f)),
      vcodec = Missing,
      acodec = store (get_default (acodec f) ''unknown''),
      fps = Missing,
      vbr = Missing,
      abr = store (get (abr f)),
      type = Val ''audio'',
      video_types = Missing,
      format_note = Missing\<rparr>"

text \<open>
  The \<^verbatim>\<open>if\<close>/\<^verbatim>\<open>elif\<close> chain of the loop body. \<^verbatim>\<open>fmt.get('vcodec') != 'none'\<close>
  holds for a missing key and for \<^verbatim>\<open>None\<close> as well as for any other text.
\<close>

fun bucket :: "fmt \<Rightarrow> string list \<Rightarrow> fmt list \<times> fmt list \<Rightarrow> fmt list \<times> fmt list" where
  "bucket f vts (video_formats, audio_formats) =
     (if get (vcodec f) \<noteq> Some ''none'' \<and> get (acodec f) \<noteq> Some ''none''
      then (video_formats @ [video_audio_entry f vts], audio_formats)
      else if get (vcodec f) \<noteq> Some ''none'' \<and> get (acodec f) = Some ''none''
      then (video_formats @ [video_only_entry f vts], audio_formats)
      else if get (acodec f) \<noteq> Some ''none'' \<and> get (vcodec f) = Some ''none''
      then (video_formats, audio_formats @ [audio_entry f])
      else (video_formats, audio_formats))"

text \<open>The loop over the formats: the tags of the descriptor, then its bucket.\<close>

fun classify ::
  "info option \<Rightarrow> fmt list \<Rightarrow> fmt list \<times> fmt list \<Rightarrow> error + (fmt list \<times> fmt list)" where
  "classify meta [] buckets = Inr buckets"
| "classify meta (f # rest) buckets =
     ebind (detect_video_type f meta) (\<lambda>video_types.
       classify meta rest (bucket f video_types buckets))"

text \<open>\<^verbatim>\<open>for x in xs\<close> where \<^verbatim>\<open>xs\<close> may be \<^verbatim>\<open>None\<close>, which is not iterable.\<close>

fun iter_of :: "'a list option \<Rightarrow> error + 'a list" where
  "iter_of None = Inl TypeError"
| "iter_of (Some xs) = Inr xs"

text \<open>
  The body of the \<^verbatim>\<open>try\<close> block after the extraction, for metadata that Python takes
  as true: \<^verbatim>\<open>formats = info.get('formats', [])\<close> and the loop.
\<close>

definition classify_formats :: "info \<Rightarrow> error + (fmt list \<times> fmt list)" where
  "classify_formats i =
     ebind (iter_of (get_default (formats i) [])) (\<lambda>fs. classify (Some i) fs ([], []))"

text \<open>
  \<^verbatim>\<open>get_video_info\<close>, from the result of the extraction on. The handler
  \<^verbatim>\<open>except Exception\<close> turns every error of the body into the result
  \<^verbatim>\<open>(None, [], [])\<close>.
\<close>

definition get_video_info :: "info option \<Rightarrow> info option \<times> fmt list \<times> fmt list" where
  "get_video_info extracted =
     (case extracted of
        None \<Rightarrow> (None, [], [])
      | Some i \<Rightarrow>
          (case classify_formats i of
             Inl e \<Rightarrow> (None, [], [])
           | Inr (video_formats, audio_formats) \<Rightarrow> (Some i, video_formats, audio_formats)))"

section \<open>The text of a list of format dictionaries\<close>

text \<open>
  \<^verbatim>\<open>display_format_options\<close> looks for keywords in \<^verbatim>\<open>str(video_formats)\<close>, the
  text Python writes for a list of dictionaries. \<^verbatim>\<open>repr\<close> of a text puts it between
  single quotes, or between double quotes when it holds a single quote and no double
  quote; it writes a backslash before the quote sign and before a backslash, writes tab,
  line feed and carriage return as \<^verbatim>\<open>\t\<close>, \<^verbatim>\<open>\n\<close>, \<^verbatim>\<open>\r\<close>, and every other
  code point that is not printable as \<^verbatim>\<open>\x\<close> and two hexadecimal digits. Below 256
  the printable code points are 32 to 126 and 161 to 255 without the soft hyphen 173.
\<close>

definition single_quote :: char where "single_quote = CHR 0x27"
definition double_quote :: char where "double_quote = CHR 0x22"
definition backslash :: char where "backslash = CHR 0x5C"

definition printable :: "char \<Rightarrow> bool" where
  "printable c = (let n = (of_char c :: int) in
     (32 \<le> n \<and> n < 127) \<or> (161 \<le> n \<and> n \<noteq> 173))"

definition hex_digit :: "int \<Rightarrow> char" where
  "hex_digit n = (if n < 10 then char_of (48 + n) else char_of (87 + n))"

definition escape_char :: "char \<Rightarrow> char \<Rightarrow> string" where
  "escape_char quote c =
     (if c = quote \<or> c = backslash then [backslash, c]
      else if c = CHR 0x09 then [backslash, CHR ''t'']
      else if c = CHR 0x0A then [backslash, CHR ''n'']
      else if c = CHR 0x0D then [backslash, CHR ''r'']
      else if printable c then [c]
      else [backslash, CHR ''x'', hex_digit (of_char c div 16), hex_digit (of_char c mod 16)])"

definition repr_str :: "string \<Rightarrow> string" where
  "repr_str s =
     (let quote = (if single_quote \<in> set s \<and> double_quote \<notin> set s
                   then double_quote else single_quote)
      in [quote] @ concat (map (escape_char quote) s) @ [quote])"

fun repr_text :: "string option \<Rightarrow> string" where
  "repr_text None = ''None''"
| "repr_text (Some s) = repr_str s"

fun repr_num :: "number option \<Rightarrow> string" where
  "repr_num None = ''None''"
| "repr_num (Some v) = str_number v"

definition repr_list :: "string list \<Rightarrow> string" where
  "repr_list items = ''['' @ join '', '' items @ '']''"

fun repr_texts :: "string list option \<Rightarrow> string" where
  "repr_texts None = ''None''"
| "repr_texts (Some xs) = repr_list (map repr_str xs)"

text \<open>
  One key of a dictionary with its value: nothing for a key that is not in the
  dictionary.
\<close>

fun dict_item :: "string \<Rightarrow> ('a option \<Rightarrow> string) \<Rightarrow> 'a field \<Rightarrow> string list" where
  "dict_item key repr_value Missing = []"
| "dict_item key repr_value PyNone = [repr_str key @ '': '' @ repr_value None]"
| "dict_item key repr_value (Val v) = [repr_str key @ '': '' @ repr_value (Some v)]"

text \<open>
  The keys are written in the order in which \<^verbatim>\<open>get_video_info\<close> puts them into
  its dictionaries.
\<close>

definition repr_fmt :: "fmt \<Rightarrow> string" where
  "repr_fmt f =
     ''{'' @ join '', ''
       (dict_item ''format_id'' repr_text (Val (format_id f)) @
        dict_item ''ext'' repr_text (Val (ext f)) @
        dict_item ''resolution'' repr_text (resolution f) @
        dict_item ''height'' repr_num (height f) @
        dict_item ''width'' repr_num (width f) @
        dict_item ''filesize'' repr_num (filesize f) @
        dict_item ''vcodec'' repr_text (vcodec f) @
        dict_item ''acodec'' repr_text (acodec f) @
        dict_item ''fps'' repr_num (fps f) @
        dict_item ''vbr'' repr_num (vbr f) @
        dict_item ''abr'' repr_num (abr f) @
        dict_item ''type'' repr_text (type f) @
        dict_item ''video_types'' repr_texts (video_types f) @
        dict_item ''format_note'' repr_text (format_note f)) @ ''}''"

definition str_formats :: "fmt list \<Rightarrow> string" where
  "str_formats fs = repr_list (map repr_fmt fs)"

section \<open>Sorting\<close>

text \<open>
  \<^verbatim>\<open>xs.sort(key=k, reverse=True)\<close>: a stable sort in descending order of the keys,
  which Python carries out as a stable ascending sort of the reversed list, reversed again.
  Tuples are compared lexicographically.
\<close>

definition sort_reverse :: "('a \<Rightarrow> 'k::linorder) \<Rightarrow> 'a list \<Rightarrow> 'a list" where
  "sort_reverse k xs = rev (sort_key k (rev xs))"

text \<open>
  The key of the audio sort: \<^verbatim>\<open>x.get('abr') or 0\<close>. Python compares numbers by
  their values, so the key is the value.
\<close>

definition audio_sort_key :: "fmt \<Rightarrow> rat" where
  "audio_sort_key x = num_value (or0 (get (abr x)))"

text \<open>
  The local function \<^verbatim>\<open>sort_key\<close> of the video formats. The tests
  \<^verbatim>\<open>'SBS-3D' in fmt['video_types']\<close> are tests on the list;
  \<^verbatim>\<open>any('3D' in vtype for vtype in fmt['video_types'])\<close> is a test on the text of
  the tags.
\<close>

definition special_priority :: "fmt \<Rightarrow> int" where
  "special_priority f =
     (case get (video_types f) of
        None \<Rightarrow> 0
      | Some vts \<Rightarrow>
          if vts = [] then 0
          else if SBS3D \<in> set vts \<and> VR180 \<in> set vts then 2000
          else if Combined3D180VR \<in> set vts then 1800
          else if SBS3D \<in> set vts then 1500
          else if HDR \<in> set vts then 1000
          else if VR360 \<in> set vts \<or> VR \<in> set vts then 500
          else if list_ex (sublist ''3D'') vts then 300
          else if VR180 \<in> set vts then 200
          else 0)"

definition sort_key_video :: "fmt \<Rightarrow> int \<times> rat \<times> rat \<times> rat" where
  "sort_key_video f =
     (special_priority f, num_value (or0 (get (height f))), num_value (or0 (get (fps f))),
      num_value (or0 (get (vbr f))))"

section \<open>display_format_options\<close>

text \<open>
  An entry of the option list. The key \<^verbatim>\<open>description\<close> of the fixed options is a
  display text and is left out; \<^verbatim>\<open>info\<close> is the format dictionary of a listed format.
\<close>

record download_option =
  opt_num :: nat
  opt_format :: string
  opt_ext :: string
  opt_type :: string
  opt_info :: "fmt option"

text \<open>
  The state of the function is the list \<^verbatim>\<open>options\<close> and the counter
  \<^verbatim>\<open>option_num\<close>. Every new option is appended with the counter as its number, and
  the counter goes up by one.
\<close>

fun append_option ::
  "string \<Rightarrow> string \<Rightarrow> string \<Rightarrow> fmt option \<Rightarrow> download_option list \<times> nat
     \<Rightarrow> download_option list \<times> nat" where
  "append_option fm e ty fi (options, option_num) =
     (options @ [\<lparr>opt_num = option_num, opt_format = fm, opt_ext = e, opt_type = ty,
                   opt_info = fi\<rparr>],
      option_num + 1)"

definition vr_indicators :: "string list" where
  "vr_indicators = [''360'', ''vr'', ''180'', ''3d'', ''stereoscopic'', ''virtual reality'']"

definition is_vr_content :: "string \<Rightarrow> string \<Rightarrow> bool" where
  "is_vr_content ttl desc =
     list_ex (\<lambda>indicator. sublist indicator ttl \<or> sublist indicator desc) vr_indicators"

definition has_3d_180 :: "string \<Rightarrow> string \<Rightarrow> bool" where
  "has_3d_180 ttl desc = list_ex (\<lambda>t. sublist ''3d'' t \<and> sublist ''180'' t) [ttl, desc]"

definition has_sbs :: "string \<Rightarrow> string \<Rightarrow> string \<Rightarrow> bool" where
  "has_sbs ttl desc formats_text =
     list_ex (\<lambda>text. sublist ''sbs'' text \<or> sublist ''side by side'' text
                      \<or> sublist ''side-by-side'' text)
             [ttl, desc, formats_text]"

text \<open>
  The check at the start: without metadata the content is not VR content and the two
  texts are not read; otherwise the lower-cased title and description.
\<close>

definition vr_check :: "info option \<Rightarrow> error + (bool \<times> string \<times> string)" where
  "vr_check meta =
     (case meta of
        None \<Rightarrow> Inr (False, [], [])
      | Some i \<Rightarrow>
          ebind (lower_of (get_default (title i) '''')) (\<lambda>ttl.
          ebind (lower_of (get_default (description i) '''')) (\<lambda>desc.
          Inr (is_vr_content ttl desc, ttl, desc))))"

definition vr_special_options ::
  "bool \<Rightarrow> download_option list \<times> nat \<Rightarrow> download_option list \<times> nat" where
  "vr_special_options sbs_or_3d_180 st =
     append_option ''bestvideo+bestaudio/best'' ''mkv'' ''3d_video'' None
       (append_option ''bestvideo+bestaudio/best'' ''mkv'' ''vr_180_video'' None
         (append_option ''bestvideo+bestaudio/best'' ''mkv'' ''vr_360_video'' None
           (if sbs_or_3d_180
            then append_option ''bestvideo+bestaudio/best'' ''mkv'' ''3d_180_sbs_video'' None st
            else st)))"

definition quick_options :: "download_option list \<times> nat \<Rightarrow> download_option list \<times> nat" where
  "quick_options st =
     append_option ''bestaudio/best'' ''mp3'' ''quick_audio'' None
       (append_option ''bestvideo[ext=mp4]+bestaudio[ext=m4a]/best[ext=mp4]/best'' ''mp4''
          ''quick_video_mp4'' None
         (append_option ''bestvideo+bestaudio/best'' ''mkv'' ''quick_video_mkv'' None st))"

text \<open>
  The audio loop. The set \<^verbatim>\<open>displayed_audio\<close> is a list without repetition, a key
  being added only when it is not there.
\<close>

definition audio_key :: "fmt \<Rightarrow> string" where
  "audio_key f = ext f @ ''_'' @ fstr_num (get_default (abr f) (PyInt 0))"

fun audio_loop ::
  "fmt list \<Rightarrow> string list \<Rightarrow> download_option list \<times> nat \<Rightarrow> download_option list \<times> nat" where
  "audio_loop [] displayed_audio st = st"
| "audio_loop (f # rest) displayed_audio st =
     (if audio_key f \<notin> set displayed_audio
      then audio_loop rest (audio_key f # displayed_audio)
             (append_option (format_id f) (ext f) ''audio'' (Some f) st)
      else audio_loop rest displayed_audio st)"

text \<open>
  The key of the video loop:
  \<^verbatim>\<open>'+'.join(fmt.get('video_types', []))\<close> cannot join \<^verbatim>\<open>None\<close>, and
  \<^verbatim>\<open>fmt.get('vcodec', 'unknown')[:10]\<close> cannot slice it.
\<close>

fun join_of :: "string \<Rightarrow> string list option \<Rightarrow> error + string" where
  "join_of sep None = Inl TypeError"
| "join_of sep (Some xs) = Inr (join sep xs)"

definition video_key :: "fmt \<Rightarrow> error + string" where
  "video_key f =
     ebind (join_of ''+'' (get_default (video_types f) [])) (\<lambda>special_types_str.
     ebind (slice_to 10 (get_default (vcodec f) ''unknown'')) (\<lambda>codec.
     Inr (ext f @ ''_'' @ fstr_num (get_default (height f) (PyInt 0)) @ ''_'' @
          fstr_num (get_default (fps f) (PyInt 0)) @ ''_'' @ codec @ ''_'' @
          special_types_str)))"

text \<open>
  The line printed for a listed video format is not part of the result, but building
  it can fail: \<^verbatim>\<open>fmt.get('vcodec', 'unknown')[:12]\<close>, \<^verbatim>\<open>fmt['type']\<close> and, for
  the type \<^verbatim>\<open>video+audio\<close>, \<^verbatim>\<open>fmt.get('acodec', 'unknown')[:8]\<close>.
\<close>

definition video_line :: "fmt \<Rightarrow> error + unit" where
  "video_line f =
     ebind (slice_to 12 (get_default (vcodec f) ''unknown'')) (\<lambda>codec.
     ebind (subscript (type f)) (\<lambda>ty.
     if ty = Some ''video+audio''
     then ebind (slice_to 8 (get_default (acodec f) ''unknown'')) (\<lambda>audio_codec. Inr ())
     else Inr ()))"

text \<open>
  The video loop. A format is listed when its key is new and fewer than 20 keys have been
  listed.
\<close>

fun video_loop ::
  "fmt list \<Rightarrow> string list \<Rightarrow> download_option list \<times> nat
     \<Rightarrow> error + (download_option list \<times> nat)" where
  "video_loop [] displayed_video st = Inr st"
| "video_loop (f # rest) displayed_video st =
     ebind (video_key f) (\<lambda>key.
       if key \<notin> set displayed_video \<and> length displayed_video < 20
       then ebind (video_line f) (\<lambda>u.
              video_loop rest (key # displayed_video)
                (append_option (format_id f) (ext f) ''video'' (Some f) st))
       else video_loop rest displayed_video st)"

text \<open>The function after the check of the metadata.\<close>

fun options_from ::
  "fmt list \<Rightarrow> fmt list \<Rightarrow> bool \<times> string \<times> string \<Rightarrow> error + download_option list" where
  "options_from video_formats audio_formats (vr, ttl, desc) =
     ebind
       (video_loop (sort_reverse sort_key_video video_formats) []
         (audio_loop (sort_reverse audio_sort_key audio_formats) []
           (quick_options
             (if vr
              then vr_special_options
                     (has_3d_180 ttl desc \<or> has_sbs ttl desc (str_formats video_formats))
                     ([], 1)
              else ([], 1)))))
       (\<lambda>st. Inr (fst st))"

definition display_format_options ::
  "fmt list \<Rightarrow> fmt list \<Rightarrow> info option \<Rightarrow> error + download_option list" where
  "display_format_options video_formats audio_formats meta =
     ebind (vr_check meta) (options_from video_formats audio_formats)"

text \<open>
  One turn of the main loop, from the result of the extraction to the option list:
  no list when \<^verbatim>\<open>get_video_info\<close> returns no metadata.
\<close>

definition option_list :: "info option \<Rightarrow> (error + download_option list) option" where
  "option_list extracted =
     (case get_video_info extracted of
        (None, video_formats, audio_formats) \<Rightarrow> None
      | (Some i, video_formats, audio_formats) \<Rightarrow>
          Some (display_format_options video_formats audio_formats (Some i)))"

section \<open>The priority table of the specification\<close>

text \<open>
  The table of special priorities as the specification words it, on the set of tags of a
  format, first matching row first. The specification has one tag for 360 degree and VR
  content where the program has the two tags \<^term>\<open>VR360\<close> and \<^term>\<open>VR\<close>.
  \<^term>\<open>spec_priority_table\<close> is the table as written, with the row
  ``contains VR360 or VR360EQR''; \<^term>\<open>priority_table\<close> is the table without the
  tag \<^term>\<open>VR360EQR\<close> in that row.
\<close>

definition spec_priority_table :: "string set \<Rightarrow> int" where
  "spec_priority_table tags =
     (if SBS3D \<in> tags \<and> VR180 \<in> tags then 2000
      else if Combined3D180VR \<in> tags then 1800
      else if SBS3D \<in> tags then 1500
      else if HDR \<in> tags then 1000
      else if VR360 \<in> tags \<or> VR \<in> tags \<or> VR360EQR \<in> tags then 500
      else if tags \<inter> set stereo_family \<noteq> {} then 300
      else if VR180 \<in> tags then 200
      else 0)"

definition priority_table :: "string set \<Rightarrow> int" where
  "priority_table tags =
     (if SBS3D \<in> tags \<and> VR180 \<in> tags then 2000
      else if Combined3D180VR \<in> tags then 1800
      else if SBS3D \<in> tags then 1500
      else if HDR \<in> tags then 1000
      else if VR360 \<in> tags \<or> VR \<in> tags then 500
      else if tags \<inter> set stereo_family \<noteq> {} then 300
      else if VR180 \<in> tags then 200
      else 0)"

text \<open>The tags the program knows.\<close>

definition known_tags :: "string list" where
  "known_tags = stereo_family @ independent_tags @ [VR180, Combined3D180VR]"

section \<open>Deduplication as the specification words it\<close>

text \<open>
  A list with the first occurrence of every key kept and the later ones removed, in the
  order of the list.
\<close>

fun first_occurrences :: "('a \<Rightarrow> 'k) \<Rightarrow> 'a list \<Rightarrow> 'a list" where
  "first_occurrences key [] = []"
| "first_occurrences key (x # xs) =
     x # first_occurrences key (filter (\<lambda>y. key y \<noteq> key x) xs)"

text \<open>
  The five fields of the deduplication key of the specification: extension, height, frame
  rate, the first ten characters of the video codec and the joined tags. Two such tuples
  are equal as Python tuples are: a number is equal to every number of the same value,
  30 to 30.0.
\<close>

definition dedup_fields ::
  "fmt \<Rightarrow> string \<times> rat option \<times> rat option \<times> string option \<times> string option" where
  "dedup_fields f =
     (ext f,
      map_option num_value (get_default (height f) (PyInt 0)),
      map_option num_value (get_default (fps f) (PyInt 0)),
      map_option (take 10) (get_default (vcodec f) ''unknown''),
      map_option (join ''+'') (get_default (video_types f) []))"

text \<open>
  The same five fields as the program writes them into its key: the numbers as the text
  of \<^verbatim>\<open>str\<close>.
\<close>

definition written_fields ::
  "fmt \<Rightarrow> string \<times> string \<times> string \<times> string option \<times> string option" where
  "written_fields f =
     (ext f,
      fstr_num (get_default (height f) (PyInt 0)),
      fstr_num (get_default (fps f) (PyInt 0)),
      map_option (take 10) (get_default (vcodec f) ''unknown''),
      map_option (join ''+'') (get_default (video_types f) []))"

text \<open>The format dictionaries of the video options of an option list, in its order.\<close>

definition video_infos :: "download_option list \<Rightarrow> fmt list" where
  "video_infos options =
     concat (map (\<lambda>opt. case opt_info opt of None \<Rightarrow> [] | Some f \<Rightarrow> [f])
                 (filter (\<lambda>opt. opt_type opt = ''video'') options))"

section \<open>An example video\<close>

text \<open>
  A video with a muxed format, an audio format, two video-only formats that differ in
  their identifier only, and a format with neither codec.
\<close>

definition example_info :: info where
  "example_info =
     \<lparr>title = Val ''Epic 3D 180 VR Tour'',
      description = Missing,
      formats = Val
        [(descriptor ''137'' ''mp4'')\<lparr>height := Val (PyInt 1080), width := Val (PyInt 1920), fps := Val (PyInt 30),
            vcodec := Val ''avc1.640028'', acodec := Val ''none''\<rparr>,
         (descriptor ''140'' ''m4a'')\<lparr>vcodec := Val ''none'', acodec := Val ''mp4a.40.2'',
            abr := Val (PyInt 128)\<rparr>,
         (descriptor ''299'' ''mp4'')\<lparr>height := Val (PyInt 1080), width := Val (PyInt 1920), fps := Val (PyInt 30),
            vcodec := Val ''avc1.640028'', acodec := Val ''none''\<rparr>,
         (descriptor ''313'' ''webm'')\<lparr>height := Val (PyInt 2160), width := Val (PyInt 3840), fps := Val (PyInt 60),
            vcodec := Val ''vp9'', acodec := Val ''opus''\<rparr>,
         (descriptor ''sb0'' ''mhtml'')\<lparr>vcodec := Val ''none'', acodec := Val ''none''\<rparr>]\<rparr>"

definition example_video_formats :: "fmt list" where
  "example_video_formats = fst (snd (get_video_info (Some example_info)))"

definition example_audio_formats :: "fmt list" where
  "example_audio_formats = snd (snd (get_video_info (Some example_info)))"

text \<open>
  A video whose title has the keyword vr and whose only format has the keyword sbs in
  its note.
\<close>

definition sbs_note_info :: info where
  "sbs_note_info =
     \<lparr>title = Val ''VR clip'',
      description = Missing,
      formats = Val
        [(descriptor ''313'' ''webm'')\<lparr>vcodec := Val ''vp9'', acodec := Val ''opus'',
            format_note := Val ''sbs left-right''\<rparr>]\<rparr>"

text \<open>A video whose description holds \<^verbatim>\<open>None\<close>.\<close>

definition none_description_info :: info where
  "none_description_info =
     \<lparr>title = Val ''Holiday clip'',
      description = PyNone,
      formats = Val [(descriptor ''18'' ''mp4'')\<lparr>vcodec := Val ''avc1.42001E'',
                        acodec := Val ''mp4a.40.2''\<rparr>]\<rparr>"

text \<open>
  A video with two video-only formats that differ in their identifier and in the way
  the frame rate is written, once as the integer 30 and once as the float 30.0.
\<close>

definition float_fps_info :: info where
  "float_fps_info =
     \<lparr>title = Val ''Holiday clip'',
      description = Missing,
      formats = Val
        [(descriptor ''137'' ''mp4'')\<lparr>height := Val (PyInt 1080), width := Val (PyInt 1920),
            fps := Val (PyInt 30), vcodec := Val ''avc1.640028'', acodec := Val ''none''\<rparr>,
         (descriptor ''299'' ''mp4'')\<lparr>height := Val (PyInt 1080), width := Val (PyInt 1920),
            fps := Val (PyFloat 30 ''30.0''), vcodec := Val ''avc1.640028'',
            acodec := Val ''none''\<rparr>]\<rparr>"

definition float_fps_formats :: "fmt list" where
  "float_fps_formats = fst (snd (get_video_info (Some float_fps_info)))"

text \<open>
  A video with two video-only formats whose five fields differ and whose keys are the
  same text: the underscore that joins the fields also occurs inside the extension of
  one and inside the codec of the other.
\<close>

definition same_text_info :: info where
  "same_text_info =
     \<lparr>title = Val ''Holiday clip'',
      description = Missing,
      formats = Val
        [(descriptor ''a'' ''mp4'')\<lparr>height := Val (PyInt 1), fps := Val (PyInt 2),
            vcodec := Val ''3_y'', acodec := Val ''none''\<rparr>,
         (descriptor ''b'' ''mp4_1'')\<lparr>height := Val (PyInt 2), fps := Val (PyInt 3),
            vcodec := Val ''y'', acodec := Val ''none''\<rparr>]\<rparr>"

definition same_text_formats :: "fmt list" where
  "same_text_formats = fst (snd (get_video_info (Some same_text_info)))"

text \<open>
  The video formats that \<^verbatim>\<open>display_format_options\<close> lists, none when it raises.
\<close>

definition listed_video_formats :: "fmt list \<Rightarrow> fmt list \<Rightarrow> info option \<Rightarrow> fmt list" where
  "listed_video_formats video_formats audio_formats meta =
     (case display_format_options video_formats audio_formats meta of
        Inl e \<Rightarrow> []
      | Inr options \<Rightarrow> video_infos options)"

section \<open>Properties of detect_video_type\<close>

lemmas tag_defs =
  ThreeD_def SBS3D_def TB3D_def Anaglyph3D_def DualFisheye3D_def VR360_def VR_def
  VR360EQR_def VR180_def HDR_def Combined3D180VR_def deg_def

lemma ebind_Inr_iff: "ebind m k = Inr r \<longleftrightarrow> (\<exists>x. m = Inr x \<and> k x = Inr r)"
  by (cases m) (simp_all add: ebind_def)

lemma ebind_simps [simp]: "ebind (Inl e) k = Inl e" "ebind (Inr x) k = k x"
  by (simp_all add: ebind_def)





lemma vr_scan_set:
  "set (vr_scan ks nt ttl desc vt) \<subseteq> set vt \<union> snd ` set ks"
proof (induction ks arbitrary: vt)
  case Nil
  show ?case by auto
next
  case (Cons a ks)
  obtain k ty where a: "a = (k, ty)" by (cases a)
  show ?case using Cons [of vt] Cons [of "vt @ [ty]"] by (auto simp: a)
qed

lemma vr180_scan_set:
  "set (vr180_scan ks nt ttl desc vt) \<subseteq> set vt \<union> {VR180}"
proof (induction ks arbitrary: vt)
  case Nil
  show ?case by auto
next
  case (Cons a ks)
  show ?case using Cons [of vt] Cons [of "vt @ [VR180]"] by auto
qed

lemma hdr_scan_set:
  "set (hdr_scan ks nt fid vt) \<subseteq> set vt \<union> {HDR}"
proof (induction ks arbitrary: vt)
  case Nil
  show ?case by auto
next
  case (Cons a ks)
  show ?case using Cons [of vt] Cons [of "vt @ [HDR]"] by auto
qed

lemma stereo_scan_set:
  "set (stereo_scan ks nt ttl desc vt) \<subseteq> set vt \<union> snd ` set ks"
proof (induction ks)
  case Nil
  show ?case by auto
next
  case (Cons a ks)
  obtain k ty where a: "a = (k, ty)" by (cases a)
  show ?case using Cons by (auto simp: a)
qed

lemma stereo_keywords_tags: "snd ` set stereo_keywords \<subseteq> set stereo_family"
  by (simp add: stereo_keywords_def stereo_family_def)

lemma vr_keywords_tags: "snd ` set vr_keywords \<subseteq> set independent_tags"
  by (simp add: vr_keywords_def independent_tags_def)

lemma not_stereo_independent: "t \<in> set independent_tags \<Longrightarrow> t \<notin> set stereo_family"
  by (auto simp: independent_tags_def stereo_family_def tag_defs)



lemma scan_tags_set:
  "set (scan_tags nt fid ttl desc) \<subseteq> set stereo_family \<union> set independent_tags \<union> {VR180}"
proof -
  let ?a = "stereo_scan stereo_keywords nt ttl desc []"
  let ?b = "vr_scan vr_keywords nt ttl desc ?a"
  let ?c = "vr180_scan vr180_keywords nt ttl desc ?b"
  have a: "set ?a \<subseteq> set stereo_family"
    using stereo_scan_set [of stereo_keywords nt ttl desc "[]"] stereo_keywords_tags by auto
  have b: "set ?b \<subseteq> set stereo_family \<union> set independent_tags"
    using vr_scan_set [of vr_keywords nt ttl desc ?a] a vr_keywords_tags by auto
  have c: "set ?c \<subseteq> set stereo_family \<union> set independent_tags \<union> {VR180}"
    using vr180_scan_set [of vr180_keywords nt ttl desc ?b] b by auto
  have "HDR \<in> set independent_tags" by (simp add: independent_tags_def)
  then show ?thesis
    unfolding scan_tags_def
    using hdr_scan_set [of hdr_keywords nt fid ?c] c by auto
qed


lemma stereo_has_3D: "t \<in> set stereo_family \<Longrightarrow> sublist ''3D'' t"
  by (auto simp: stereo_family_def tag_defs sublist_code)

lemma independent_no_3D: "t \<in> set independent_tags \<Longrightarrow> \<not> sublist ''3D'' t \<and> t \<noteq> VR180"
  by (auto simp: independent_tags_def tag_defs sublist_code)

lemma Combined_not_stereo: "Combined3D180VR \<notin> set stereo_family"
  by (simp add: stereo_family_def tag_defs)

lemma Combined_not_independent: "Combined3D180VR \<notin> set independent_tags"
  by (simp add: independent_tags_def tag_defs)

lemma VR180_not_independent: "VR180 \<notin> set independent_tags"
  by (simp add: independent_tags_def tag_defs)





text \<open>
  Claim C1. When the tag list of the four loops holds a tag of the stereoscopic family and
  the 180 degree tag, the returned list holds the combined tag, none of the stereoscopic
  tags and not the 180 degree tag, and every independent tag (HDR and the 360 degree and VR
  tags) exactly as the loops left it: the returned list is the combined tag followed by the
  independent tags of the loops, in their order.
\<close>

theorem combination_rule:
  assumes texts: "detect_texts f meta = Inr (nt, fid, ttl, desc)"
    and stereo: "\<exists>t \<in> set stereo_family. t \<in> set (scan_tags nt fid ttl desc)"
    and vr180: "VR180 \<in> set (scan_tags nt fid ttl desc)"
  shows "\<exists>r. detect_video_type f meta = Inr r
           \<and> Combined3D180VR \<in> set r
           \<and> (\<forall>t \<in> set stereo_family. t \<notin> set r)
           \<and> VR180 \<notin> set r
           \<and> (\<forall>t \<in> set independent_tags. t \<in> set r \<longleftrightarrow> t \<in> set (scan_tags nt fid ttl desc))
           \<and> r = Combined3D180VR #
                 filter (\<lambda>t. t \<in> set independent_tags) (scan_tags nt fid ttl desc)"
proof -
  let ?acc = "scan_tags nt fid ttl desc"
  let ?r = "Combined3D180VR # filter (\<lambda>t. t \<in> set independent_tags) ?acc"
  have known: "t \<in> set stereo_family \<or> t \<in> set independent_tags \<or> t = VR180"
    if "t \<in> set ?acc" for t
    using that scan_tags_set [of nt fid ttl desc] by auto
  have keep: "(\<not> sublist ''3D'' t \<and> t \<noteq> VR180) \<longleftrightarrow> t \<in> set independent_tags"
    if "t \<in> set ?acc" for t
    using known [OF that] stereo_has_3D [of t] independent_no_3D [of t] VR180_not_independent
    by auto
  have "list_ex (sublist ''3D'') ?acc"
    using stereo stereo_has_3D by (auto simp: list_ex_iff)
  then have "combine ?acc =
      Combined3D180VR # filter (\<lambda>vtype. \<not> sublist ''3D'' vtype \<and> vtype \<noteq> VR180) ?acc"
    using vr180 by (simp add: combine_def)
  also have "filter (\<lambda>vtype. \<not> sublist ''3D'' vtype \<and> vtype \<noteq> VR180) ?acc =
      filter (\<lambda>t. t \<in> set independent_tags) ?acc"
    by (rule filter_cong) (simp_all add: keep)
  finally have r: "detect_video_type f meta = Inr ?r"
    by (simp add: detect_video_type_def texts)
  have "\<forall>t \<in> set stereo_family. t \<notin> set ?r"
    using Combined_not_stereo not_stereo_independent by auto
  moreover have "VR180 \<notin> set ?r"
    using VR180_not_independent by (auto simp: tag_defs)
  moreover have "\<forall>t \<in> set independent_tags. t \<in> set ?r \<longleftrightarrow> t \<in> set ?acc"
    using Combined_not_independent by auto
  ultimately show ?thesis
    using r by simp
qed

theorem combination_rule_witness:
  "detect_video_type
      \<lparr>format_id = ''313'', ext = ''webm'', resolution = Missing, height = Val (PyInt 2160),
        width = Val (PyInt 3840), filesize = Missing, vcodec = Val ''vp9'', acodec = Val ''none'',
        fps = Val (PyInt 60), vbr = Missing, abr = Missing, type = Missing,
        video_types = Missing, format_note = Val ''2160p60 HDR''\<rparr>
      (Some \<lparr>title = Val ''Epic 3D 180 VR Tour'', description = Missing, formats = Missing\<rparr>)
    = Inr [Combined3D180VR, VR, HDR]"
proof -
  let ?f = "\<lparr>format_id = ''313'', ext = ''webm'', resolution = Missing, height = Val (PyInt 2160),
        width = Val (PyInt 3840), filesize = Missing, vcodec = Val ''vp9'', acodec = Val ''none'',
        fps = Val (PyInt 60), vbr = Missing, abr = Missing, type = Missing,
        video_types = Missing, format_note = Val ''2160p60 HDR''\<rparr>"
  let ?m = "Some \<lparr>title = Val ''Epic 3D 180 VR Tour'', description = Missing, formats = Missing\<rparr>"
  have t: "detect_texts ?f ?m = Inr (''2160p60 hdr'', ''313'', ''epic 3d 180 vr tour'', [])"
    by code_simp
  have a: "scan_tags ''2160p60 hdr'' ''313'' ''epic 3d 180 vr tour'' [] = [ThreeD, VR, VR180, HDR]"
    by code_simp
  have s: "\<exists>t \<in> set stereo_family. t \<in> set (scan_tags ''2160p60 hdr'' ''313'' ''epic 3d 180 vr tour'' [])"
    unfolding a by (simp add: stereo_family_def)
  have v: "VR180 \<in> set (scan_tags ''2160p60 hdr'' ''313'' ''epic 3d 180 vr tour'' [])"
    unfolding a by simp
  have i: "filter (\<lambda>t. t \<in> set independent_tags) [ThreeD, VR, VR180, HDR] = [VR, HDR]"
    by code_simp
  show ?thesis
    using combination_rule [OF t s v] unfolding a i by blast
qed

section \<open>Properties of get_enhanced_resolution_info\<close>

lemma truthy_Val: "truthy (get (Val v)) \<longleftrightarrow> num_value v \<noteq> 0"
  by simp

lemma not_truthy_iff:
  "\<not> truthy (get x) \<longleftrightarrow> x = Missing \<or> x = PyNone \<or> (\<exists>v. x = Val v \<and> num_value v = 0)"
  by (cases x) auto

lemma resolution_fallback:
  assumes "\<not> truthy (get (height f)) \<or> \<not> truthy (get (width f))"
  shows "get_enhanced_resolution_info f = get_default (resolution f) ''Unknown resolution''"
  using assms
  by (cases "get (height f)"; cases "get (width f)")
     (auto simp: get_enhanced_resolution_info_def)

text \<open>
  Claim C8, amended. For a descriptor whose height and width are both present and not 0,
  the display text is the tier, a space and the width and height in parentheses, where
  the tier is 8K from 4320 up, 4K from 2160, 2K from 1440, 1080p from 1080, 720p from 720,
  and the height followed by p below 720. When the height or the width is missing,
  \<^verbatim>\<open>None\<close> or 0, the result is the value of the descriptor's resolution key, and the
  text \<^verbatim>\<open>Unknown resolution\<close> when that key is missing. Height and width are any
  numbers, integers or floats, written as \<^verbatim>\<open>str\<close> writes them.
\<close>

theorem resolution_display:
  "(\<forall>h w. height f = Val h \<and> width f = Val w \<and> num_value h \<noteq> 0 \<and> num_value w \<noteq> 0 \<longrightarrow>
      (\<exists>tier. get_enhanced_resolution_info f =
                 Some (tier @ '' ('' @ str_number w @ ''x'' @ str_number h @ '')'')
         \<and> (4320 \<le> num_value h \<longrightarrow> tier = ''8K'')
         \<and> (2160 \<le> num_value h \<and> num_value h < 4320 \<longrightarrow> tier = ''4K'')
         \<and> (1440 \<le> num_value h \<and> num_value h < 2160 \<longrightarrow> tier = ''2K'')
         \<and> (1080 \<le> num_value h \<and> num_value h < 1440 \<longrightarrow> tier = ''1080p'')
         \<and> (720 \<le> num_value h \<and> num_value h < 1080 \<longrightarrow> tier = ''720p'')
         \<and> (num_value h < 720 \<longrightarrow> tier = str_number h @ ''p'')))
   \<and> (height f \<in> {Missing, PyNone} \<or> (\<exists>h. height f = Val h \<and> num_value h = 0)
        \<or> width f \<in> {Missing, PyNone} \<or> (\<exists>w. width f = Val w \<and> num_value w = 0) \<longrightarrow>
        get_enhanced_resolution_info f = get_default (resolution f) ''Unknown resolution''
        \<and> (\<forall>r. resolution f = Val r \<longrightarrow> get_enhanced_resolution_info f = Some r)
        \<and> (resolution f = Missing \<longrightarrow>
             get_enhanced_resolution_info f = Some ''Unknown resolution''))"
proof (intro conjI allI impI)
  fix h w
  assume a: "height f = Val h \<and> width f = Val w \<and> num_value h \<noteq> 0 \<and> num_value w \<noteq> 0"
  then have "get_enhanced_resolution_info f =
      Some (base_res h @ '' ('' @ str_number w @ ''x'' @ str_number h @ '')'')"
    by (simp add: get_enhanced_resolution_info_def)
  then show "\<exists>tier. get_enhanced_resolution_info f =
                 Some (tier @ '' ('' @ str_number w @ ''x'' @ str_number h @ '')'')
         \<and> (4320 \<le> num_value h \<longrightarrow> tier = ''8K'')
         \<and> (2160 \<le> num_value h \<and> num_value h < 4320 \<longrightarrow> tier = ''4K'')
         \<and> (1440 \<le> num_value h \<and> num_value h < 2160 \<longrightarrow> tier = ''2K'')
         \<and> (1080 \<le> num_value h \<and> num_value h < 1440 \<longrightarrow> tier = ''1080p'')
         \<and> (720 \<le> num_value h \<and> num_value h < 1080 \<longrightarrow> tier = ''720p'')
         \<and> (num_value h < 720 \<longrightarrow> tier = str_number h @ ''p'')"
    by (intro exI [of _ "base_res h"]) (simp add: base_res_def)
next
  assume "height f \<in> {Missing, PyNone} \<or> (\<exists>h. height f = Val h \<and> num_value h = 0)
        \<or> width f \<in> {Missing, PyNone} \<or> (\<exists>w. width f = Val w \<and> num_value w = 0)"
  then have "\<not> truthy (get (height f)) \<or> \<not> truthy (get (width f))"
    unfolding not_truthy_iff by blast
  then show r: "get_enhanced_resolution_info f = get_default (resolution f) ''Unknown resolution''"
    by (rule resolution_fallback)
  show "get_enhanced_resolution_info f = Some r'" if "resolution f = Val r'" for r'
    using r that by simp
  show "get_enhanced_resolution_info f = Some ''Unknown resolution''" if "resolution f = Missing"
    using r that by simp
qed

text \<open>
  The examples of the claim: 3840 by 2160, 7680 by 4320, a height of 700, and descriptors
  without height and width.
\<close>

theorem resolution_display_witness:
  "get_enhanced_resolution_info
     ((descriptor ''313'' ''webm'')\<lparr>height := Val (PyInt 2160), width := Val (PyInt 3840)\<rparr>)
     = Some ''4K (3840x2160)''
   \<and> get_enhanced_resolution_info
     ((descriptor ''571'' ''mp4'')\<lparr>height := Val (PyInt 4320), width := Val (PyInt 7680)\<rparr>)
     = Some ''8K (7680x4320)''
   \<and> get_enhanced_resolution_info
     ((descriptor ''18'' ''mp4'')\<lparr>height := Val (PyInt 700), width := Val (PyInt 1244)\<rparr>)
     = Some ''700p (1244x700)''
   \<and> get_enhanced_resolution_info
     ((descriptor ''140'' ''m4a'')\<lparr>resolution := Val ''audio only''\<rparr>)
     = Some ''audio only''
   \<and> get_enhanced_resolution_info (descriptor ''140'' ''m4a'') = Some ''Unknown resolution''"
proof -
  let ?a = "(descriptor ''313'' ''webm'')\<lparr>height := Val (PyInt 2160),
              width := Val (PyInt 3840)\<rparr>"
  let ?b = "(descriptor ''571'' ''mp4'')\<lparr>height := Val (PyInt 4320),
              width := Val (PyInt 7680)\<rparr>"
  let ?c = "(descriptor ''18'' ''mp4'')\<lparr>height := Val (PyInt 700),
              width := Val (PyInt 1244)\<rparr>"
  let ?d = "(descriptor ''140'' ''m4a'')\<lparr>resolution := Val ''audio only''\<rparr>"
  let ?e = "descriptor ''140'' ''m4a''"
  have n: "str_number (PyInt 2160) = ''2160''" "str_number (PyInt 3840) = ''3840''"
    "str_number (PyInt 4320) = ''4320''" "str_number (PyInt 7680) = ''7680''"
    "str_number (PyInt 700) = ''700''" "str_number (PyInt 1244) = ''1244''"
    by code_simp+
  have "height ?a = Val (PyInt 2160) \<and> width ?a = Val (PyInt 3840)
      \<and> num_value (PyInt 2160) \<noteq> 0 \<and> num_value (PyInt 3840) \<noteq> 0"
    by (simp add: descriptor_def)
  from resolution_display [of ?a, THEN conjunct1, rule_format, OF this]
  have a: "get_enhanced_resolution_info ?a = Some ''4K (3840x2160)''"
    unfolding n by auto
  have "height ?b = Val (PyInt 4320) \<and> width ?b = Val (PyInt 7680)
      \<and> num_value (PyInt 4320) \<noteq> 0 \<and> num_value (PyInt 7680) \<noteq> 0"
    by (simp add: descriptor_def)
  from resolution_display [of ?b, THEN conjunct1, rule_format, OF this]
  have b: "get_enhanced_resolution_info ?b = Some ''8K (7680x4320)''"
    unfolding n by auto
  have "height ?c = Val (PyInt 700) \<and> width ?c = Val (PyInt 1244)
      \<and> num_value (PyInt 700) \<noteq> 0 \<and> num_value (PyInt 1244) \<noteq> 0"
    by (simp add: descriptor_def)
  from resolution_display [of ?c, THEN conjunct1, rule_format, OF this]
  have c: "get_enhanced_resolution_info ?c = Some ''700p (1244x700)''"
    unfolding n by auto
  have "height ?d \<in> {Missing, PyNone} \<or> (\<exists>h. height ?d = Val h \<and> num_value h = 0)
        \<or> width ?d \<in> {Missing, PyNone} \<or> (\<exists>w. width ?d = Val w \<and> num_value w = 0)"
    by (simp add: descriptor_def)
  from resolution_display [of ?d, THEN conjunct2, rule_format, OF this]
  have d: "get_enhanced_resolution_info ?d = Some ''audio only''"
    by (simp add: descriptor_def)
  have "height ?e \<in> {Missing, PyNone} \<or> (\<exists>h. height ?e = Val h \<and> num_value h = 0)
        \<or> width ?e \<in> {Missing, PyNone} \<or> (\<exists>w. width ?e = Val w \<and> num_value w = 0)"
    by (simp add: descriptor_def)
  from resolution_display [of ?e, THEN conjunct2, rule_format, OF this]
  have e: "get_enhanced_resolution_info ?e = Some ''Unknown resolution''"
    by (simp add: descriptor_def)
  show ?thesis
    using a b c d e by simp
qed

text \<open>
  Claim C8 as stated fails for a height that is present and 0: the test
  \<^verbatim>\<open>if height and width\<close> takes 0 as false, so the result is the resolution key and
  not \<^verbatim>\<open>0p (640x0)\<close>.
\<close>

theorem resolution_zero_height_counterexample:
  "get_enhanced_resolution_info
     ((descriptor ''sb0'' ''mhtml'')\<lparr>height := Val (PyInt 0), width := Val (PyInt 640),
        resolution := Val ''640x0''\<rparr>) = Some ''640x0''
   \<and> get_enhanced_resolution_info
     ((descriptor ''sb0'' ''mhtml'')\<lparr>height := Val (PyInt 0), width := Val (PyInt 640),
        resolution := Val ''640x0''\<rparr>) \<noteq> Some ''0p (640x0)''"
  by code_simp

section \<open>Properties of get_video_info\<close>

lemma get_eq_Some_iff: "get x = Some v \<longleftrightarrow> x = Val v"
  by (cases x) auto

lemma get_video_info_single:
  assumes "formats i = Val [f]" and "detect_video_type f (Some i) = Inr vts"
  shows "get_video_info (Some i) = (Some i, bucket f vts ([], []))"
  using assms
  by (simp add: get_video_info_def classify_formats_def split: prod.split)

lemma classify_buckets:
  assumes "classify meta fs (vs0, as0) = Inr (vs, as)"
  shows "vs = vs0 @ concat (map (\<lambda>f.
              case detect_video_type f meta of
                Inl e \<Rightarrow> []
              | Inr vts \<Rightarrow>
                  if get (vcodec f) \<noteq> Some ''none'' \<and> get (acodec f) \<noteq> Some ''none''
                  then [video_audio_entry f vts]
                  else if get (vcodec f) \<noteq> Some ''none'' then [video_only_entry f vts]
                  else []) fs)
       \<and> as = as0 @ concat (map (\<lambda>f.
              if get (acodec f) \<noteq> Some ''none'' \<and> get (vcodec f) = Some ''none''
              then [audio_entry f] else []) fs)"
  using assms
proof (induction fs arbitrary: vs0 as0)
  case Nil
  then show ?case by simp
next
  case (Cons f rest)
  from Cons.prems obtain vts where d: "detect_video_type f meta = Inr vts"
      and r: "classify meta rest (bucket f vts (vs0, as0)) = Inr (vs, as)"
    by (auto simp: ebind_Inr_iff)
  obtain vs1 as1 where b: "bucket f vts (vs0, as0) = (vs1, as1)"
    by (cases "bucket f vts (vs0, as0)")
  from Cons.IH [OF r [unfolded b]] b d show ?case
    by (auto split: if_splits)
qed

text \<open>
  Claim C4. With \<^verbatim>\<open>none\<close> as the mark of an absent codec, the two buckets that
  \<^verbatim>\<open>get_video_info\<close> returns are made of the formats in their order: a format with
  both codecs gives one entry of the video bucket, of type \<^verbatim>\<open>video+audio\<close>; a format
  with a video codec and no audio codec gives one entry of the video bucket, of type
  \<^verbatim>\<open>video_only\<close>; a format with an audio codec and no video codec gives one entry of
  the audio bucket; a format with neither gives no entry in either bucket, and the call
  returns its buckets all the same.
\<close>

theorem bucket_by_codec_presence:
  assumes "get_default (formats i) [] = Some fs"
    and "classify_formats i = Inr (vs, as)"
  shows "get_video_info (Some i) = (Some i, vs, as)
       \<and> vs = concat (map (\<lambda>f.
              case detect_video_type f (Some i) of
                Inl e \<Rightarrow> []
              | Inr vts \<Rightarrow>
                  if get (vcodec f) \<noteq> Some ''none'' \<and> get (acodec f) \<noteq> Some ''none''
                  then [video_audio_entry f vts]
                  else if get (vcodec f) \<noteq> Some ''none'' then [video_only_entry f vts]
                  else []) fs)
       \<and> as = concat (map (\<lambda>f.
              if get (acodec f) \<noteq> Some ''none'' \<and> get (vcodec f) = Some ''none''
              then [audio_entry f] else []) fs)
       \<and> (\<forall>f vts. type (video_audio_entry f vts) = Val ''video+audio''
             \<and> type (video_only_entry f vts) = Val ''video_only''
             \<and> type (audio_entry f) = Val ''audio'')"
proof -
  from assms have c: "classify (Some i) fs ([], []) = Inr (vs, as)"
    by (simp add: classify_formats_def)
  have "get_video_info (Some i) = (Some i, vs, as)"
    using assms(2) by (simp add: get_video_info_def)
  moreover note classify_buckets [OF c, simplified]
  moreover have "\<forall>f vts. type (video_audio_entry f vts) = Val ''video+audio''
             \<and> type (video_only_entry f vts) = Val ''video_only''
             \<and> type (audio_entry f) = Val ''audio''"
    by (simp add: video_audio_entry_def video_only_entry_def audio_entry_def)
  ultimately show ?thesis
    by (intro conjI) (elim conjE, assumption)+
qed

text \<open>
  The example video: the muxed format and the two video-only formats are in the video
  bucket, the audio format in the audio bucket, the format with neither codec in none.
\<close>

theorem bucket_by_codec_presence_witness:
  "get_video_info (Some example_info)
     = (Some example_info, example_video_formats, example_audio_formats)
   \<and> map format_id example_video_formats = [''137'', ''299'', ''313'']
   \<and> map type example_video_formats
       = [Val ''video_only'', Val ''video_only'', Val ''video+audio'']
   \<and> map format_id example_audio_formats = [''140'']
   \<and> map type example_audio_formats = [Val ''audio'']"
proof -
  have f: "get_default (formats example_info) [] =
     Some [(descriptor ''137'' ''mp4'')\<lparr>height := Val (PyInt 1080), width := Val (PyInt 1920), fps := Val (PyInt 30),
            vcodec := Val ''avc1.640028'', acodec := Val ''none''\<rparr>,
         (descriptor ''140'' ''m4a'')\<lparr>vcodec := Val ''none'', acodec := Val ''mp4a.40.2'',
            abr := Val (PyInt 128)\<rparr>,
         (descriptor ''299'' ''mp4'')\<lparr>height := Val (PyInt 1080), width := Val (PyInt 1920), fps := Val (PyInt 30),
            vcodec := Val ''avc1.640028'', acodec := Val ''none''\<rparr>,
         (descriptor ''313'' ''webm'')\<lparr>height := Val (PyInt 2160), width := Val (PyInt 3840), fps := Val (PyInt 60),
            vcodec := Val ''vp9'', acodec := Val ''opus''\<rparr>,
         (descriptor ''sb0'' ''mhtml'')\<lparr>vcodec := Val ''none'', acodec := Val ''none''\<rparr>]"
    by (simp add: example_info_def)
  have c: "classify_formats example_info = Inr (example_video_formats, example_audio_formats)"
    by code_simp
  have e: "map format_id example_video_formats = [''137'', ''299'', ''313'']"
    "map type example_video_formats
       = [Val ''video_only'', Val ''video_only'', Val ''video+audio'']"
    "map format_id example_audio_formats = [''140'']"
    "map type example_audio_formats = [Val ''audio'']"
    by code_simp+
  note t = bucket_by_codec_presence [OF f c]
  from t [THEN conjunct1] e show ?thesis
    by (intro conjI)
qed

text \<open>
  Claim C9. A codec key that is missing from the descriptor counts as a present stream:
  a descriptor with neither codec key is stored in the video bucket as
  \<^verbatim>\<open>video+audio\<close> with both codecs \<^verbatim>\<open>unknown\<close>, a missing video codec key always
  leads to the video bucket, a missing audio codec key never to a drop, and the descriptor
  is dropped exactly when both keys hold the text \<^verbatim>\<open>none\<close>.
\<close>

theorem missing_codec_counts_as_present:
  assumes "formats i = Val [f]" and "detect_video_type f (Some i) = Inr vts"
  shows "(vcodec f = Missing \<and> acodec f = Missing \<longrightarrow>
            get_video_info (Some i) = (Some i, [video_audio_entry f vts], [])
            \<and> type (video_audio_entry f vts) = Val ''video+audio''
            \<and> vcodec (video_audio_entry f vts) = Val ''unknown''
            \<and> acodec (video_audio_entry f vts) = Val ''unknown'')
       \<and> (vcodec f = Missing \<longrightarrow> (\<exists>e. get_video_info (Some i) = (Some i, [e], [])))
       \<and> (acodec f = Missing \<longrightarrow> get_video_info (Some i) \<noteq> (Some i, [], []))
       \<and> (get_video_info (Some i) = (Some i, [], []) \<longleftrightarrow>
            vcodec f = Val ''none'' \<and> acodec f = Val ''none'')"
  unfolding get_video_info_single [OF assms]
  by (simp add: get_eq_Some_iff video_audio_entry_def)

theorem missing_codec_counts_as_present_witness:
  "get_video_info (Some \<lparr>title = Val ''clip'', description = Missing,
      formats = Val [descriptor ''0'' ''mp4'']\<rparr>)
   = (Some \<lparr>title = Val ''clip'', description = Missing,
        formats = Val [descriptor ''0'' ''mp4'']\<rparr>,
      [video_audio_entry (descriptor ''0'' ''mp4'') []], [])
   \<and> get_video_info (Some \<lparr>title = Val ''clip'', description = Missing,
      formats = Val [descriptor ''0'' ''mp4'']\<rparr>)
     \<noteq> (Some \<lparr>title = Val ''clip'', description = Missing,
        formats = Val [descriptor ''0'' ''mp4'']\<rparr>, [], [])"
proof -
  let ?f = "descriptor ''0'' ''mp4''"
  let ?i = "\<lparr>title = Val ''clip'', description = Missing, formats = Val [?f]\<rparr>"
  have f: "formats ?i = Val [?f]"
    by simp
  have d: "detect_video_type ?f (Some ?i) = Inr []"
    by code_simp
  have m: "vcodec ?f = Missing \<and> acodec ?f = Missing"
    by (simp add: descriptor_def)
  show ?thesis
    using missing_codec_counts_as_present [OF f d] m by simp
qed

section \<open>Properties of the sort\<close>

lemma sort_reverse_set: "set (sort_reverse k xs) = set xs"
  by (simp add: sort_reverse_def)

lemma sort_reverse_mset: "mset (sort_reverse k xs) = mset xs"
  by (simp add: sort_reverse_def)

lemma sort_reverse_length: "length (sort_reverse k xs) = length xs"
  by (simp add: sort_reverse_def)

lemma sort_reverse_sorted: "sorted_wrt (\<lambda>a b. k a \<ge> k b) (sort_reverse k xs)"
proof -
  have "sorted (map k (sort_key k (rev xs)))"
    by (rule sorted_sort_key)
  then have "sorted_wrt (\<lambda>a b. k a \<le> k b) (sort_key k (rev xs))"
    by (simp add: sorted_map)
  then show ?thesis
    by (simp add: sort_reverse_def sorted_wrt_rev)
qed

lemma sort_reverse_stable:
  "filter (\<lambda>y. k y = c) (sort_reverse k xs) = filter (\<lambda>y. k y = c) xs"
  by (simp add: sort_reverse_def rev_filter [symmetric] sort_key_stable)

lemma known_3D_iff:
  assumes "t \<in> set known_tags"
  shows "sublist ''3D'' t \<longleftrightarrow> t \<in> set stereo_family \<or> t = Combined3D180VR"
proof -
  have "sublist ''3D'' Combined3D180VR"
    by (simp add: tag_defs sublist_code)
  then show ?thesis
    using assms stereo_has_3D [of t] independent_no_3D [of t]
    by (auto simp: known_tags_def tag_defs sublist_code)
qed

lemma special_priority_table:
  assumes "video_types f = Val vts" and "set vts \<subseteq> set known_tags"
  shows "special_priority f = priority_table (set vts)"
proof -
  have "list_ex (sublist ''3D'') vts \<longleftrightarrow> set vts \<inter> set stereo_family \<noteq> {}"
    if "Combined3D180VR \<notin> set vts"
    using that assms(2) known_3D_iff by (auto simp: list_ex_iff)
  then show ?thesis
    using assms(1) by (auto simp: special_priority_def priority_table_def)
qed

lemma eqr_only_priority:
  assumes "video_types f = Val vts" and "set vts \<subseteq> {VR360EQR}"
  shows "special_priority f = 0"
proof -
  have k: "set vts \<subseteq> set known_tags"
    using assms(2) by (auto simp: known_tags_def independent_tags_def)
  have "priority_table (set vts) = 0"
  proof (cases "vts = []")
    case True
    then show ?thesis by (simp add: priority_table_def)
  next
    case False
    with assms(2) have "set vts = {VR360EQR}"
      by (cases vts) auto
    moreover have "priority_table {VR360EQR} = 0"
      by (simp add: priority_table_def stereo_family_def tag_defs)
    ultimately show ?thesis by simp
  qed
  then show ?thesis
    using special_priority_table [OF assms(1) k] by simp
qed

text \<open>
  Claim C2, amended. The sort key of a video format is the tuple of its special priority,
  height, frame rate and video bitrate, an absent number (a missing key, \<^verbatim>\<open>None\<close>)
  counting as 0, and the list is sorted on it in descending order, stably and without loss.
  For a list of tags the program knows, the special priority is given by the first row of
  the table that matches: SBS-3D and the 180 degree tag 2000, the combined tag 1800,
  SBS-3D 1500, HDR 1000, the 360 degree tag or the VR tag 500, any stereoscopic tag 300,
  the 180 degree tag 200, otherwise 0. The equirectangular tag is in no row.
\<close>

theorem video_sort_key:
  "sort_key_video f = (special_priority f, num_value (or0 (get (height f))),
                       num_value (or0 (get (fps f))), num_value (or0 (get (vbr f))))
   \<and> (\<forall>vts. video_types f = Val vts \<and> set vts \<subseteq> set known_tags \<longrightarrow>
         special_priority f = priority_table (set vts))
   \<and> (\<forall>vts. video_types f = Val vts \<and> set vts \<subseteq> {VR360EQR} \<longrightarrow>
         special_priority f = 0)
   \<and> (video_types f \<in> {Missing, PyNone} \<longrightarrow> special_priority f = 0)
   \<and> (\<forall>x. x \<in> {Missing, PyNone} \<or> (\<exists>v. x = Val v \<and> num_value v = 0) \<longrightarrow>
         or0 (get x) = PyInt 0 \<and> num_value (or0 (get x)) = 0)
   \<and> (\<forall>v. num_value (or0 (get (Val v))) = num_value v
         \<and> (num_value v \<noteq> 0 \<longrightarrow> or0 (get (Val v)) = v))
   \<and> sorted_wrt (\<lambda>a b. sort_key_video a \<ge> sort_key_video b)
        (sort_reverse sort_key_video video_formats)
   \<and> mset (sort_reverse sort_key_video video_formats) = mset video_formats
   \<and> (\<forall>c. filter (\<lambda>y. sort_key_video y = c) (sort_reverse sort_key_video video_formats)
          = filter (\<lambda>y. sort_key_video y = c) video_formats)"
proof (intro conjI)
  show "sort_key_video f = (special_priority f, num_value (or0 (get (height f))),
                       num_value (or0 (get (fps f))), num_value (or0 (get (vbr f))))"
    by (simp add: sort_key_video_def)
  show "\<forall>vts. video_types f = Val vts \<and> set vts \<subseteq> set known_tags \<longrightarrow>
         special_priority f = priority_table (set vts)"
    using special_priority_table [of f] by blast
  show "\<forall>vts. video_types f = Val vts \<and> set vts \<subseteq> {VR360EQR} \<longrightarrow>
         special_priority f = 0"
    using eqr_only_priority [of f] by blast
  show "video_types f \<in> {Missing, PyNone} \<longrightarrow> special_priority f = 0"
    by (auto simp: special_priority_def)
  show "\<forall>x. x \<in> {Missing, PyNone} \<or> (\<exists>v. x = Val v \<and> num_value v = 0) \<longrightarrow>
         or0 (get x) = PyInt 0 \<and> num_value (or0 (get x)) = 0"
    by (auto simp: or0_def)
  show "\<forall>v. num_value (or0 (get (Val v))) = num_value v
         \<and> (num_value v \<noteq> 0 \<longrightarrow> or0 (get (Val v)) = v)"
    by (simp add: or0_def)
  show "sorted_wrt (\<lambda>a b. sort_key_video a \<ge> sort_key_video b)
        (sort_reverse sort_key_video video_formats)"
    by (rule sort_reverse_sorted)
  show "mset (sort_reverse sort_key_video video_formats) = mset video_formats"
    by (rule sort_reverse_mset)
  show "\<forall>c. filter (\<lambda>y. sort_key_video y = c) (sort_reverse sort_key_video video_formats)
          = filter (\<lambda>y. sort_key_video y = c) video_formats"
    by (simp add: sort_reverse_stable)
qed

theorem video_sort_key_witness:
  "special_priority ((descriptor ''313'' ''webm'')\<lparr>video_types := Val [VR360, HDR]\<rparr>) = 1000
   \<and> special_priority ((descriptor ''272'' ''webm'')\<lparr>video_types := Val [VR, VR360EQR]\<rparr>) = 500
   \<and> special_priority ((descriptor ''248'' ''webm'')\<lparr>video_types := Val [TB3D]\<rparr>) = 300
   \<and> special_priority (descriptor ''18'' ''mp4'') = 0
   \<and> sorted_wrt (\<lambda>a b. sort_key_video a \<ge> sort_key_video b)
        (sort_reverse sort_key_video example_video_formats)"
proof -
  let ?a = "(descriptor ''313'' ''webm'')\<lparr>video_types := Val [VR360, HDR]\<rparr>"
  let ?b = "(descriptor ''272'' ''webm'')\<lparr>video_types := Val [VR, VR360EQR]\<rparr>"
  let ?c = "(descriptor ''248'' ''webm'')\<lparr>video_types := Val [TB3D]\<rparr>"
  let ?d = "descriptor ''18'' ''mp4''"
  have k: "set [VR360, HDR] \<subseteq> set known_tags" "set [VR, VR360EQR] \<subseteq> set known_tags"
    "set [TB3D] \<subseteq> set known_tags"
    by (simp_all add: known_tags_def stereo_family_def independent_tags_def)
  have p: "priority_table (set [VR360, HDR]) = 1000" "priority_table (set [VR, VR360EQR]) = 500"
    "priority_table (set [TB3D]) = 300"
    by code_simp+
  have v: "video_types ?a = Val [VR360, HDR]" "video_types ?b = Val [VR, VR360EQR]"
    "video_types ?c = Val [TB3D]" "video_types ?d \<in> {Missing, PyNone}"
    by (simp_all add: descriptor_def)
  note ta = video_sort_key [of ?a example_video_formats]
  note tb = video_sort_key [of ?b example_video_formats]
  note tc = video_sort_key [of ?c example_video_formats]
  note td = video_sort_key [of ?d example_video_formats]
  have a: "special_priority ?a = 1000"
    using ta [THEN conjunct2, THEN conjunct1, rule_format, of "[VR360, HDR]"] v(1) k(1) p(1)
    by simp
  have b: "special_priority ?b = 500"
    using tb [THEN conjunct2, THEN conjunct1, rule_format, of "[VR, VR360EQR]"] v(2) k(2) p(2)
    by simp
  have c: "special_priority ?c = 300"
    using tc [THEN conjunct2, THEN conjunct1, rule_format, of "[TB3D]"] v(3) k(3) p(3)
    by simp
  have d: "special_priority ?d = 0"
    using td [THEN conjunct2, THEN conjunct2, THEN conjunct2, THEN conjunct1] v(4)
    by (rule mp)
  note s = ta [THEN conjunct2, THEN conjunct2, THEN conjunct2, THEN conjunct2,
      THEN conjunct2, THEN conjunct2, THEN conjunct1]
  from a b c d s show ?thesis
    by (intro conjI)
qed

text \<open>
  Claim C2 as stated fails for a format whose only tag is the equirectangular one: the
  table of the specification gives 500, the program 0. Such a tag list is what
  \<^verbatim>\<open>detect_video_type\<close> returns for a note \<^verbatim>\<open>Equirectangular\<close> under a title without
  keyword.
\<close>

theorem eqr_priority_counterexample:
  "detect_video_type ((descriptor ''313'' ''webm'')\<lparr>format_note := Val ''Equirectangular''\<rparr>)
      (Some \<lparr>title = Val ''Mountain flight'', description = Missing, formats = Missing\<rparr>)
     = Inr [VR360EQR]
   \<and> special_priority (video_audio_entry
        ((descriptor ''313'' ''webm'')\<lparr>format_note := Val ''Equirectangular''\<rparr>) [VR360EQR]) = 0
   \<and> special_priority (video_audio_entry
        ((descriptor ''313'' ''webm'')\<lparr>format_note := Val ''Equirectangular''\<rparr>) [VR360EQR])
       \<noteq> spec_priority_table (set [VR360EQR])
   \<and> spec_priority_table (set [VR360EQR]) = 500"
  by code_simp

section \<open>The shape of the option list\<close>

lemma first_occurrences_set: "set (first_occurrences key xs) \<subseteq> set xs"
  by (induction key xs rule: first_occurrences.induct) auto

lemma first_occurrences_distinct: "distinct (map key (first_occurrences key xs))"
proof (induction key xs rule: first_occurrences.induct)
  case (1 key)
  show ?case by simp
next
  case (2 key x xs)
  have "key x \<notin> key ` set (first_occurrences key (filter (\<lambda>y. key y \<noteq> key x) xs))"
    using first_occurrences_set [of key "filter (\<lambda>y. key y \<noteq> key x) xs"] by auto
  then show ?case
    using 2 by simp
qed

lemma first_occurrences_subseq: "subseq (first_occurrences key xs) xs"
proof (induction key xs rule: first_occurrences.induct)
  case (1 key)
  show ?case by simp
next
  case (2 key x xs)
  have "subseq (filter (\<lambda>y. key y \<noteq> key x) xs) xs"
    by simp
  then have "subseq (first_occurrences key (filter (\<lambda>y. key y \<noteq> key x) xs)) xs"
    using 2 subseq_order.order_trans by blast
  then show ?case
    by simp
qed

lemma first_occurrences_snoc:
  "first_occurrences key (xs @ [x]) =
     first_occurrences key xs @ (if key x \<in> key ` set xs then [] else [x])"
proof (induction key xs arbitrary: x rule: first_occurrences.induct)
  case (1 key)
  show ?case by simp
next
  case (2 key y ys)
  show ?case
  proof (cases "key x = key y")
    case True
    then show ?thesis by simp
  next
    case False
    then have "key x \<in> key ` set (filter (\<lambda>z. key z \<noteq> key y) ys) \<longleftrightarrow> key x \<in> key ` set ys"
      by auto
    then show ?thesis
      using False 2 [of x] by simp
  qed
qed

lemma append_option_eq:
  "append_option fm e ty fi (opts, n) =
     (opts @ [\<lparr>opt_num = n, opt_format = fm, opt_ext = e, opt_type = ty, opt_info = fi\<rparr>],
      Suc n)"
  by simp

lemma vr_special_options_shape:
  "\<exists>ext. vr_special_options b (opts, n) = (opts @ ext, n + length ext)
        \<and> map opt_num ext = [n..<n + length ext]
        \<and> map opt_type ext =
            (if b then [''3d_180_sbs_video''] else []) @
            [''vr_360_video'', ''vr_180_video'', ''3d_video'']"
  by (cases b) (simp_all add: vr_special_options_def upt_rec)

lemma quick_options_shape:
  "\<exists>ext. quick_options (opts, n) = (opts @ ext, n + length ext)
        \<and> map opt_num ext = [n..<n + length ext]
        \<and> map opt_type ext = [''quick_video_mkv'', ''quick_video_mp4'', ''quick_audio'']"
  by (simp add: quick_options_def upt_rec)

lemma audio_loop_shape:
  "\<exists>ext. audio_loop fs seen (opts, n) = (opts @ ext, n + length ext)
        \<and> map opt_num ext = [n..<n + length ext]
        \<and> (\<forall>opt \<in> set ext. opt_type opt = ''audio'')"
proof (induction fs arbitrary: seen opts n)
  case Nil
  show ?case by simp
next
  case (Cons f rest)
  show ?case
  proof (cases "audio_key f \<in> set seen")
    case True
    then show ?thesis using Cons [of seen opts n] by simp
  next
    case False
    let ?o = "\<lparr>opt_num = n, opt_format = format_id f, opt_ext = ext f, opt_type = ''audio'',
               opt_info = Some f\<rparr>"
    from Cons [of "audio_key f # seen" "opts @ [?o]" "Suc n"]
    obtain ext' where e: "audio_loop rest (audio_key f # seen) (opts @ [?o], Suc n)
                           = ((opts @ [?o]) @ ext', Suc n + length ext')"
      "map opt_num ext' = [Suc n..<Suc n + length ext']"
      "\<forall>opt \<in> set ext'. opt_type opt = ''audio''"
      by blast
    have "audio_loop (f # rest) seen (opts, n) = (opts @ (?o # ext'), n + length (?o # ext'))"
      using False e(1) by simp
    moreover have "map opt_num (?o # ext') = [n..<n + length (?o # ext')]"
      using e(2) by (simp add: upt_rec)
    moreover have "\<forall>opt \<in> set (?o # ext'). opt_type opt = ''audio''"
      using e(3) by simp
    ultimately show ?thesis by blast
  qed
qed

lemma video_loop_shape:
  assumes "video_loop fs seen (opts, n) = Inr st"
  shows "\<exists>ext. st = (opts @ ext, n + length ext)
        \<and> map opt_num ext = [n..<n + length ext]
        \<and> (\<forall>opt \<in> set ext. opt_type opt = ''video'')
        \<and> map opt_info ext =
            map Some (take (20 - length seen)
              (first_occurrences video_key
                 (filter (\<lambda>g. video_key g \<notin> Inr ` set seen) fs)))"
  using assms
proof (induction fs arbitrary: seen opts n)
  case Nil
  then show ?case by simp
next
  case (Cons f rest)
  from Cons.prems obtain key where key: "video_key f = Inr key"
    by (auto simp: ebind_Inr_iff)
  show ?case
  proof (cases "key \<notin> set seen \<and> length seen < 20")
    case True
    let ?o = "\<lparr>opt_num = n, opt_format = format_id f, opt_ext = ext f, opt_type = ''video'',
               opt_info = Some f\<rparr>"
    from Cons.prems key True
    have "video_loop rest (key # seen) (opts @ [?o], Suc n) = Inr st"
      by (auto simp: ebind_Inr_iff)
    from Cons.IH [OF this]
    obtain ext' where e: "st = ((opts @ [?o]) @ ext', Suc n + length ext')"
      "map opt_num ext' = [Suc n..<Suc n + length ext']"
      "\<forall>opt \<in> set ext'. opt_type opt = ''video''"
      "map opt_info ext' =
         map Some (take (20 - length (key # seen))
           (first_occurrences video_key
              (filter (\<lambda>g. video_key g \<notin> Inr ` set (key # seen)) rest)))"
      by blast
    have flt: "filter (\<lambda>y. video_key y \<noteq> video_key f)
                 (filter (\<lambda>g. video_key g \<notin> Inr ` set seen) rest)
               = filter (\<lambda>g. video_key g \<notin> Inr ` set (key # seen)) rest"
      by (auto simp: key intro: filter_cong)
    have "length seen < 20"
      using True by simp
    then have tk: "20 - length seen = Suc (20 - length (key # seen))"
      unfolding length_Cons by arith
    have nin: "video_key f \<notin> Inr ` set seen"
      using True key by auto
    define kept where "kept = first_occurrences video_key
              (filter (\<lambda>g. video_key g \<notin> Inr ` set (key # seen)) rest)"
    have "first_occurrences video_key
            (filter (\<lambda>g. video_key g \<notin> Inr ` set seen) (f # rest))
          = f # first_occurrences video_key
                 (filter (\<lambda>y. video_key y \<noteq> video_key f)
                    (filter (\<lambda>g. video_key g \<notin> Inr ` set seen) rest))"
      using nin by simp
    also have "\<dots> = f # kept"
      unfolding flt kept_def ..
    finally have "take (20 - length seen) (first_occurrences video_key
            (filter (\<lambda>g. video_key g \<notin> Inr ` set seen) (f # rest)))
          = f # take (20 - length (key # seen)) kept"
      unfolding tk by simp
    moreover have "map opt_info ext' = map Some (take (20 - length (key # seen)) kept)"
      using e(4) unfolding kept_def .
    ultimately have "map opt_info (?o # ext') =
            map Some (take (20 - length seen)
              (first_occurrences video_key
                 (filter (\<lambda>g. video_key g \<notin> Inr ` set seen) (f # rest))))"
      by simp
    moreover have "st = (opts @ (?o # ext'), n + length (?o # ext'))"
      using e(1) by simp
    moreover have "map opt_num (?o # ext') = [n..<n + length (?o # ext')]"
      using e(2) by (simp add: upt_rec)
    moreover have "\<forall>opt \<in> set (?o # ext'). opt_type opt = ''video''"
      using e(3) by simp
    ultimately show ?thesis by blast
  next
    case False
    with Cons.prems key have r: "video_loop rest seen (opts, n) = Inr st"
      by (auto simp: ebind_Inr_iff)
    from Cons.IH [OF r]
    obtain ext' where e: "st = (opts @ ext', n + length ext')"
      "map opt_num ext' = [n..<n + length ext']"
      "\<forall>opt \<in> set ext'. opt_type opt = ''video''"
      "map opt_info ext' =
         map Some (take (20 - length seen)
           (first_occurrences video_key
              (filter (\<lambda>g. video_key g \<notin> Inr ` set seen) rest)))"
      by blast
    have "map opt_info ext' =
            map Some (take (20 - length seen)
              (first_occurrences video_key
                 (filter (\<lambda>g. video_key g \<notin> Inr ` set seen) (f # rest))))"
    proof (cases "key \<in> set seen")
      case True
      then show ?thesis using e(4) by (simp add: key)
    next
      case False
      with \<open>\<not> (key \<notin> set seen \<and> length seen < 20)\<close> have "20 - length seen = 0"
        by simp
      then show ?thesis using e(4) by simp
    qed
    then show ?thesis using e(1,2,3) by blast
  qed
qed

lemma upt_chain: "i \<le> j \<Longrightarrow> [i..<j] @ [j..<j + k] = [i..<j + k]"
  by (rule upt_add_eq_append [symmetric])

lemma video_loop_shape_start:
  assumes "video_loop fs [] (opts, n) = Inr st"
  shows "\<exists>ext. st = (opts @ ext, n + length ext)
        \<and> map opt_num ext = [n..<n + length ext]
        \<and> (\<forall>opt \<in> set ext. opt_type opt = ''video'')
        \<and> map opt_info ext = map Some (take 20 (first_occurrences video_key fs))"
  using video_loop_shape [OF assms] by simp

lemma display_decomposition:
  assumes "display_format_options vfs afs meta = Inr options"
  shows "\<exists>vr ttl desc vrx q au vi.
      vr_check meta = Inr (vr, ttl, desc)
    \<and> options = vrx @ q @ au @ vi
    \<and> map opt_num options = [1..<Suc (length options)]
    \<and> map opt_type vrx =
        (if vr
         then (if has_3d_180 ttl desc \<or> has_sbs ttl desc (str_formats vfs)
               then [''3d_180_sbs_video''] else []) @
              [''vr_360_video'', ''vr_180_video'', ''3d_video'']
         else [])
    \<and> map opt_type q = [''quick_video_mkv'', ''quick_video_mp4'', ''quick_audio'']
    \<and> (\<forall>opt \<in> set au. opt_type opt = ''audio'')
    \<and> (\<forall>opt \<in> set vi. opt_type opt = ''video'')
    \<and> map opt_info vi =
        map Some (take 20 (first_occurrences video_key (sort_reverse sort_key_video vfs)))"
proof -
  from assms obtain x where x: "vr_check meta = Inr x" "options_from vfs afs x = Inr options"
    by (auto simp: display_format_options_def ebind_Inr_iff)
  obtain vr ttl desc where xs: "x = (vr, ttl, desc)"
    by (cases x)
  define b where "b = (has_3d_180 ttl desc \<or> has_sbs ttl desc (str_formats vfs))"
  define st1 where "st1 = (if vr then vr_special_options b ([], 1) else ([], 1))"
  obtain vrx where vrx: "st1 = (vrx, 1 + length vrx)"
      "map opt_num vrx = [1..<1 + length vrx]"
      "map opt_type vrx =
         (if vr then (if b then [''3d_180_sbs_video''] else []) @
                     [''vr_360_video'', ''vr_180_video'', ''3d_video'']
          else [])"
  proof (cases vr)
    case True
    with vr_special_options_shape [of b "[]" 1] that show ?thesis
      by (auto simp: st1_def)
  next
    case False
    with that [of "[]"] show ?thesis
      by (simp add: st1_def)
  qed
  from quick_options_shape [of vrx "1 + length vrx"]
  obtain q where q0: "quick_options (vrx, 1 + length vrx) = (vrx @ q, 1 + length vrx + length q)
      \<and> map opt_num q = [1 + length vrx..<1 + length vrx + length q]
      \<and> map opt_type q = [''quick_video_mkv'', ''quick_video_mp4'', ''quick_audio'']" ..
  note q = q0 [THEN conjunct1] q0 [THEN conjunct2, THEN conjunct1]
    q0 [THEN conjunct2, THEN conjunct2]
  define n2 where "n2 = 1 + length vrx + length q"
  from audio_loop_shape [of "sort_reverse audio_sort_key afs" "[]" "vrx @ q" n2]
  obtain au where au0:
      "audio_loop (sort_reverse audio_sort_key afs) [] (vrx @ q, n2)
         = ((vrx @ q) @ au, n2 + length au)
       \<and> map opt_num au = [n2..<n2 + length au]
       \<and> (\<forall>opt \<in> set au. opt_type opt = ''audio'')" ..
  note au = au0 [THEN conjunct1] au0 [THEN conjunct2, THEN conjunct1]
    au0 [THEN conjunct2, THEN conjunct2]
  define n3 where "n3 = n2 + length au"
  have "ebind (video_loop (sort_reverse sort_key_video vfs) []
          (audio_loop (sort_reverse audio_sort_key afs) [] (quick_options st1)))
          (\<lambda>st. Inr (fst st)) = Inr options"
    using x(2) unfolding xs st1_def b_def by simp
  then obtain st where st0:
      "video_loop (sort_reverse sort_key_video vfs) []
          (audio_loop (sort_reverse audio_sort_key afs) [] (quick_options st1)) = Inr st"
      "options = fst st"
    unfolding ebind_Inr_iff by auto
  have st: "video_loop (sort_reverse sort_key_video vfs) [] ((vrx @ q) @ au, n3) = Inr st"
    using st0(1) unfolding vrx(1) q(1) n2_def [symmetric] au(1) n3_def [symmetric] .
  from video_loop_shape_start [OF st]
  obtain vi where vi0: "st = (((vrx @ q) @ au) @ vi, n3 + length vi)
      \<and> map opt_num vi = [n3..<n3 + length vi]
      \<and> (\<forall>opt \<in> set vi. opt_type opt = ''video'')
      \<and> map opt_info vi =
        map Some (take 20 (first_occurrences video_key (sort_reverse sort_key_video vfs)))" ..
  note vi = vi0 [THEN conjunct1] vi0 [THEN conjunct2, THEN conjunct1]
    vi0 [THEN conjunct2, THEN conjunct2, THEN conjunct1]
    vi0 [THEN conjunct2, THEN conjunct2, THEN conjunct2]
  have opts: "options = vrx @ q @ au @ vi"
    using st0(2) vi(1) by simp
  have c1: "[1..<1 + length vrx] @ [1 + length vrx..<n2] = [1..<n2]"
    unfolding n2_def by (rule upt_chain) simp
  have c2: "[1..<n2] @ [n2..<n3] = [1..<n3]"
    unfolding n3_def by (rule upt_chain) (simp add: n2_def)
  have c3: "[1..<n3] @ [n3..<n3 + length vi] = [1..<n3 + length vi]"
    by (rule upt_chain) (simp add: n2_def n3_def)
  have "map opt_num options =
          (([1..<1 + length vrx] @ [1 + length vrx..<n2]) @ [n2..<n3]) @ [n3..<n3 + length vi]"
    unfolding opts map_append vrx(2) q(2) au(2) vi(2) n2_def [symmetric] n3_def [symmetric]
    by (simp only: append_assoc)
  also have "\<dots> = [1..<n3 + length vi]"
    unfolding c1 c2 c3 ..
  also have "n3 + length vi = Suc (length options)"
    by (simp add: opts n2_def n3_def)
  finally have nums: "map opt_num options = [1..<Suc (length options)]" .
  from x(1) [unfolded xs] opts nums vrx(3) [unfolded b_def] q(3) au(3) vi(3) vi(4)
  show ?thesis
    by (intro exI conjI)
qed

section \<open>Properties of the option list\<close>

lemma first_occurrences_sorted_wrt:
  "sorted_wrt R xs \<Longrightarrow> sorted_wrt R (first_occurrences key xs)"
proof (induction key xs rule: first_occurrences.induct)
  case (1 key)
  show ?case by simp
next
  case (2 key x xs)
  from 2(2) have "sorted_wrt R (filter (\<lambda>y. key y \<noteq> key x) xs)"
    by (simp add: sorted_wrt_filter)
  from 2(1) [OF this] 2(2) first_occurrences_set [of key "filter (\<lambda>y. key y \<noteq> key x) xs"]
  show ?case by auto
qed

lemma sorted_wrt_take_keep: "sorted_wrt R xs \<Longrightarrow> sorted_wrt R (take n xs)"
  using sorted_wrt_append [of R "take n xs" "drop n xs"] by simp

lemma concat_infos:
  "map opt_info vi = map Some out \<Longrightarrow>
   concat (map (\<lambda>opt. case opt_info opt of None \<Rightarrow> [] | Some f \<Rightarrow> [f]) vi) = out"
  by (induction vi arbitrary: out) auto

lemma filter_none: "(\<forall>x \<in> set xs. \<not> P x) \<Longrightarrow> filter P xs = []"
  by (simp add: filter_empty_conv)

lemma video_infos_decomposed:
  assumes "\<forall>opt \<in> set pre. opt_type opt \<noteq> ''video''"
    and "\<forall>opt \<in> set vi. opt_type opt = ''video''"
    and "map opt_info vi = map Some out"
  shows "video_infos (pre @ vi) = out"
proof -
  have "filter (\<lambda>opt. opt_type opt = ''video'') pre = []"
    using assms(1) by (simp add: filter_empty_conv)
  moreover have "filter (\<lambda>opt. opt_type opt = ''video'') vi = vi"
    using assms(2) by (simp add: filter_id_conv)
  ultimately show ?thesis
    using concat_infos [OF assms(3)] by (simp add: video_infos_def)
qed

lemma types_not_video:
  assumes "map opt_type xs = ts" and "''video'' \<notin> set ts"
  shows "\<forall>opt \<in> set xs. opt_type opt \<noteq> ''video''"
proof
  fix opt assume "opt \<in> set xs"
  then have "opt_type opt \<in> set (map opt_type xs)" by simp
  then show "opt_type opt \<noteq> ''video''" using assms by auto
qed

lemma video_infos_display:
  assumes "display_format_options vfs afs meta = Inr options"
  shows "video_infos options =
           take 20 (first_occurrences video_key (sort_reverse sort_key_video vfs))"
proof -
  from display_decomposition [OF assms]
  obtain vr ttl desc vrx q au vi where d:
      "options = vrx @ q @ au @ vi"
      "map opt_type vrx =
        (if vr
         then (if has_3d_180 ttl desc \<or> has_sbs ttl desc (str_formats vfs)
               then [''3d_180_sbs_video''] else []) @
              [''vr_360_video'', ''vr_180_video'', ''3d_video'']
         else [])"
      "map opt_type q = [''quick_video_mkv'', ''quick_video_mp4'', ''quick_audio'']"
      "\<forall>opt \<in> set au. opt_type opt = ''audio''"
      "\<forall>opt \<in> set vi. opt_type opt = ''video''"
      "map opt_info vi =
        map Some (take 20 (first_occurrences video_key (sort_reverse sort_key_video vfs)))"
    by (elim exE conjE)
  have "\<forall>opt \<in> set vrx. opt_type opt \<noteq> ''video''"
    by (rule types_not_video [OF d(2)]) simp
  moreover have "\<forall>opt \<in> set q. opt_type opt \<noteq> ''video''"
    by (rule types_not_video [OF d(3)]) simp
  moreover have "\<forall>opt \<in> set au. opt_type opt \<noteq> ''video''"
    using d(4) by simp
  ultimately have "\<forall>opt \<in> set ((vrx @ q) @ au). opt_type opt \<noteq> ''video''"
    by auto
  from video_infos_decomposed [OF this d(5) d(6)] show ?thesis
    by (simp add: d(1))
qed

lemma video_key_written_fields:
  "video_key f =
     (case written_fields f of (e, h, r, c, t) \<Rightarrow>
        (case t of None \<Rightarrow> Inl TypeError
         | Some types \<Rightarrow>
            (case c of None \<Rightarrow> Inl TypeError
             | Some codec \<Rightarrow>
                Inr (e @ ''_'' @ h @ ''_'' @ r @ ''_'' @ codec @ ''_'' @ types))))"
  by (cases "get_default (video_types f) []"; cases "get_default (vcodec f) ''unknown''")
     (simp_all add: video_key_def written_fields_def)

lemma distinct_map_factor: "distinct (map (g \<circ> f) xs) \<Longrightarrow> distinct (map f xs)"
  by (induction xs) auto

lemma written_fields_distinct:
  assumes "distinct (map video_key xs)"
  shows "distinct (map written_fields xs)"
proof -
  define g :: "string \<times> string \<times> string \<times> string option \<times> string option
      \<Rightarrow> error + string"
    where "g = (\<lambda>(e, h, r, c, t).
        (case t of None \<Rightarrow> Inl TypeError
         | Some types \<Rightarrow>
            (case c of None \<Rightarrow> Inl TypeError
             | Some codec \<Rightarrow>
                Inr (e @ ''_'' @ h @ ''_'' @ r @ ''_'' @ codec @ ''_'' @ types))))"
  have "video_key = g \<circ> written_fields"
    unfolding g_def comp_def by (rule ext) (rule video_key_written_fields)
  with assms have "distinct (map (g \<circ> written_fields) xs)"
    by simp
  then show ?thesis
    by (rule distinct_map_factor)
qed

lemma video_key_text:
  assumes "video_key f = Inr k"
  shows "\<exists>codec tags.
           get_default (vcodec f) ''unknown'' = Some codec
         \<and> get_default (video_types f) [] = Some tags
         \<and> video_key f =
             Inr (ext f @ ''_'' @ fstr_num (get_default (height f) (PyInt 0)) @ ''_'' @
                  fstr_num (get_default (fps f) (PyInt 0)) @ ''_'' @ take 10 codec @ ''_'' @
                  join ''+'' tags)"
  using assms
  by (cases "get_default (video_types f) []"; cases "get_default (vcodec f) ''unknown''")
     (simp_all add: video_key_def)

lemma video_loop_keys:
  assumes "video_loop fs seen st = Inr st'"
  shows "\<forall>f \<in> set fs. \<exists>k. video_key f = Inr k"
  using assms
proof (induction fs arbitrary: seen st)
  case Nil
  show ?case by simp
next
  case (Cons f rest)
  from Cons.prems obtain k where k: "video_key f = Inr k"
    by (auto simp: ebind_Inr_iff)
  have "\<exists>seen' st0. video_loop rest seen' st0 = Inr st'"
  proof (cases "k \<notin> set seen \<and> length seen < 20")
    case True
    with Cons.prems k
    have "video_loop rest (k # seen)
            (append_option (format_id f) (ext f) ''video'' (Some f) st) = Inr st'"
      by (auto simp: ebind_Inr_iff)
    then show ?thesis by (intro exI)
  next
    case False
    with Cons.prems k have "video_loop rest seen st = Inr st'"
      by auto
    then show ?thesis by (intro exI)
  qed
  then have "\<forall>g \<in> set rest. \<exists>k. video_key g = Inr k"
    using Cons.IH by blast
  with k show ?case by simp
qed

lemma display_video_keys:
  assumes "display_format_options vfs afs meta = Inr options"
  shows "\<forall>f \<in> set vfs. \<exists>k. video_key f = Inr k"
proof -
  from assms have "\<exists>x. vr_check meta = Inr x \<and> options_from vfs afs x = Inr options"
    unfolding display_format_options_def ebind_Inr_iff .
  then obtain x where x: "options_from vfs afs x = Inr options"
    by (elim exE conjE)
  obtain vr ttl desc where xs: "x = (vr, ttl, desc)"
    by (cases x)
  from x obtain st where
    "video_loop (sort_reverse sort_key_video vfs) []
       (audio_loop (sort_reverse audio_sort_key afs) []
         (quick_options
           (if vr
            then vr_special_options
                   (has_3d_180 ttl desc \<or> has_sbs ttl desc (str_formats vfs)) ([], 1)
            else ([], 1)))) = Inr st"
    unfolding xs by (auto simp: ebind_Inr_iff)
  then have "\<exists>st0 st. video_loop (sort_reverse sort_key_video vfs) [] st0 = Inr st"
    by (intro exI)
  then have "\<forall>f \<in> set (sort_reverse sort_key_video vfs). \<exists>k. video_key f = Inr k"
    using video_loop_keys by blast
  then show ?thesis
    by (simp add: sort_reverse_set)
qed

text \<open>
  Claim C5, amended. The key of the deduplication is a text: the extension, the height,
  the frame rate, the first ten characters of the video codec and the tags joined by a
  plus sign, the numbers written as \<^verbatim>\<open>str\<close> writes them and the five parts joined by
  underscores. The video formats of the option list are the first 20 of the sorted list
  after every format whose key text occurred earlier in the sorted list has been removed.
  So no two of them have the same key text, hence no two of them the same five fields as
  written; there are at most 20 of them; and they are in descending order of the sort key.
\<close>

theorem video_options_deduplicated:
  assumes "display_format_options video_formats audio_formats meta = Inr options"
  shows "(\<forall>f \<in> set video_formats. \<exists>codec tags.
            get_default (vcodec f) ''unknown'' = Some codec
          \<and> get_default (video_types f) [] = Some tags
          \<and> video_key f =
              Inr (ext f @ ''_'' @ fstr_num (get_default (height f) (PyInt 0)) @ ''_'' @
                   fstr_num (get_default (fps f) (PyInt 0)) @ ''_'' @ take 10 codec @ ''_'' @
                   join ''+'' tags))
       \<and> video_infos options =
           take 20 (first_occurrences video_key (sort_reverse sort_key_video video_formats))
       \<and> distinct (map video_key (video_infos options))
       \<and> distinct (map written_fields (video_infos options))
       \<and> length (video_infos options) \<le> 20
       \<and> sorted_wrt (\<lambda>a b. sort_key_video a \<ge> sort_key_video b) (video_infos options)"
proof -
  let ?sorted = "sort_reverse sort_key_video video_formats"
  have keys: "\<forall>f \<in> set video_formats. \<exists>codec tags.
            get_default (vcodec f) ''unknown'' = Some codec
          \<and> get_default (video_types f) [] = Some tags
          \<and> video_key f =
              Inr (ext f @ ''_'' @ fstr_num (get_default (height f) (PyInt 0)) @ ''_'' @
                   fstr_num (get_default (fps f) (PyInt 0)) @ ''_'' @ take 10 codec @ ''_'' @
                   join ''+'' tags)"
    using display_video_keys [OF assms] video_key_text by blast
  have eq: "video_infos options = take 20 (first_occurrences video_key ?sorted)"
    by (rule video_infos_display [OF assms])
  have d: "distinct (map video_key (video_infos options))"
    unfolding eq using first_occurrences_distinct [of video_key ?sorted]
    by (simp add: take_map [symmetric] distinct_take del: take_map)
  have "sorted_wrt (\<lambda>a b. sort_key_video a \<ge> sort_key_video b) (video_infos options)"
    unfolding eq
    by (intro sorted_wrt_take_keep first_occurrences_sorted_wrt sort_reverse_sorted)
  moreover have "length (video_infos options) \<le> 20"
    unfolding eq by simp
  ultimately show ?thesis
    using keys eq d written_fields_distinct [OF d] by (intro conjI)
qed

text \<open>
  The example video: the two video-only formats have the same key text, the second one
  of the sorted list is not listed.
\<close>

theorem video_options_deduplicated_witness:
  "\<exists>options. display_format_options example_video_formats example_audio_formats
        (Some example_info) = Inr options
     \<and> map format_id (sort_reverse sort_key_video example_video_formats)
         = [''313'', ''137'', ''299'']
     \<and> map video_key (sort_reverse sort_key_video example_video_formats)
         = [Inr (''webm_2160_60_vp9_'' @ Combined3D180VR @ ''+'' @ VR),
            Inr (''mp4_1080_30_avc1.64002_'' @ Combined3D180VR @ ''+'' @ VR),
            Inr (''mp4_1080_30_avc1.64002_'' @ Combined3D180VR @ ''+'' @ VR)]
     \<and> map format_id (video_infos options) = [''313'', ''137'']
     \<and> distinct (map video_key (video_infos options))
     \<and> length (video_infos options) \<le> 20"
proof -
  let ?r = "display_format_options example_video_formats example_audio_formats
        (Some example_info)"
  have "case ?r of Inl e \<Rightarrow> False
        | Inr options \<Rightarrow> map format_id (video_infos options) = [''313'', ''137'']"
    by code_simp
  then obtain options where o: "?r = Inr options"
      "map format_id (video_infos options) = [''313'', ''137'']"
    by (cases ?r) simp_all
  have s: "map format_id (sort_reverse sort_key_video example_video_formats)
         = [''313'', ''137'', ''299'']"
    by code_simp
  have k: "map video_key (sort_reverse sort_key_video example_video_formats)
         = [Inr (''webm_2160_60_vp9_'' @ Combined3D180VR @ ''+'' @ VR),
            Inr (''mp4_1080_30_avc1.64002_'' @ Combined3D180VR @ ''+'' @ VR),
            Inr (''mp4_1080_30_avc1.64002_'' @ Combined3D180VR @ ''+'' @ VR)]"
    by code_simp
  note t = video_options_deduplicated [OF o(1)]
  note d = t [THEN conjunct2, THEN conjunct2, THEN conjunct1]
  note l = t [THEN conjunct2, THEN conjunct2, THEN conjunct2, THEN conjunct2, THEN conjunct1]
  from o(1) s k o(2) d l show ?thesis
    by (intro exI [of _ options] conjI)
qed

text \<open>
  Claim C5 as stated fails in two ways. The key is compared as a text, not field by
  field. First, for the frame rates 30 and 30.0 the five fields are equal and the texts
  are not: both formats are listed, two options with the same five fields. Second, two
  formats with different fields and the same text count as one key: the format
  \<^verbatim>\<open>a\<close> is the first and only one with its five fields, and it is not listed.
\<close>

theorem video_dedup_counterexample:
  "map format_id (listed_video_formats float_fps_formats [] (Some float_fps_info))
     = [''137'', ''299'']
   \<and> \<not> distinct (map dedup_fields
         (listed_video_formats float_fps_formats [] (Some float_fps_info)))
   \<and> map format_id (listed_video_formats same_text_formats [] (Some same_text_info)) = [''b'']
   \<and> map format_id
        (take 20 (first_occurrences dedup_fields
           (sort_reverse sort_key_video same_text_formats))) = [''b'', ''a'']
   \<and> map video_key same_text_formats = [Inr ''mp4_1_2_3_y_'', Inr ''mp4_1_2_3_y_'']"
  by code_simp


text \<open>
  Claim C6. The numbers of the option list are 1, 2, ... up to its length, in the order of
  the list, and the list is made of four sections in this order: the VR options, present
  exactly when the VR check is positive, the three quick options, the audio options and
  the video options.
\<close>

theorem option_list_numbered_in_sections:
  assumes "display_format_options video_formats audio_formats meta = Inr options"
  shows "map opt_num options = [1..<Suc (length options)]
       \<and> (\<exists>vr_special quick audio video.
            options = vr_special @ quick @ audio @ video
          \<and> set (map opt_type vr_special)
              \<subseteq> {''3d_180_sbs_video'', ''vr_360_video'', ''vr_180_video'', ''3d_video''}
          \<and> (vr_special \<noteq> [] \<longleftrightarrow> (\<exists>ttl desc. vr_check meta = Inr (True, ttl, desc)))
          \<and> map opt_type quick = [''quick_video_mkv'', ''quick_video_mp4'', ''quick_audio'']
          \<and> (\<forall>opt \<in> set audio. opt_type opt = ''audio'')
          \<and> (\<forall>opt \<in> set video. opt_type opt = ''video''))"
proof -
  from display_decomposition [OF assms]
  obtain vr ttl desc vrx q au vi where d:
      "vr_check meta = Inr (vr, ttl, desc)"
      "options = vrx @ q @ au @ vi"
      "map opt_num options = [1..<Suc (length options)]"
      "map opt_type vrx =
        (if vr
         then (if has_3d_180 ttl desc \<or> has_sbs ttl desc (str_formats video_formats)
               then [''3d_180_sbs_video''] else []) @
              [''vr_360_video'', ''vr_180_video'', ''3d_video'']
         else [])"
      "map opt_type q = [''quick_video_mkv'', ''quick_video_mp4'', ''quick_audio'']"
      "\<forall>opt \<in> set au. opt_type opt = ''audio''"
      "\<forall>opt \<in> set vi. opt_type opt = ''video''"
    by (elim exE conjE)
  have types: "set (map opt_type vrx)
      \<subseteq> {''3d_180_sbs_video'', ''vr_360_video'', ''vr_180_video'', ''3d_video''}"
    unfolding d(4) by (simp split: if_split) blast
  have "vrx \<noteq> [] \<longleftrightarrow> vr"
    using d(4) by (cases vr) auto
  then have fires: "vrx \<noteq> [] \<longleftrightarrow> (\<exists>ttl desc. vr_check meta = Inr (True, ttl, desc))"
    using d(1) by auto
  from d(2) types fires d(5) d(6) d(7)
  have "\<exists>vr_special quick audio video.
            options = vr_special @ quick @ audio @ video
          \<and> set (map opt_type vr_special)
              \<subseteq> {''3d_180_sbs_video'', ''vr_360_video'', ''vr_180_video'', ''3d_video''}
          \<and> (vr_special \<noteq> [] \<longleftrightarrow> (\<exists>ttl desc. vr_check meta = Inr (True, ttl, desc)))
          \<and> map opt_type quick = [''quick_video_mkv'', ''quick_video_mp4'', ''quick_audio'']
          \<and> (\<forall>opt \<in> set audio. opt_type opt = ''audio'')
          \<and> (\<forall>opt \<in> set video. opt_type opt = ''video'')"
    by (intro exI conjI)
  with d(3) show ?thesis
    by (rule conjI)
qed

theorem option_list_numbered_in_sections_witness:
  "\<exists>options. display_format_options example_video_formats example_audio_formats
        (Some example_info) = Inr options
     \<and> map opt_num options = [1..<Suc (length options)]
     \<and> map opt_type options =
          [''3d_180_sbs_video'', ''vr_360_video'', ''vr_180_video'', ''3d_video'',
           ''quick_video_mkv'', ''quick_video_mp4'', ''quick_audio'',
           ''audio'', ''video'', ''video'']"
proof -
  let ?r = "display_format_options example_video_formats example_audio_formats
        (Some example_info)"
  have "case ?r of Inl e \<Rightarrow> False
        | Inr options \<Rightarrow> map opt_type options =
          [''3d_180_sbs_video'', ''vr_360_video'', ''vr_180_video'', ''3d_video'',
           ''quick_video_mkv'', ''quick_video_mp4'', ''quick_audio'',
           ''audio'', ''video'', ''video'']"
    by code_simp
  then obtain options where o: "?r = Inr options"
      "map opt_type options =
          [''3d_180_sbs_video'', ''vr_360_video'', ''vr_180_video'', ''3d_video'',
           ''quick_video_mkv'', ''quick_video_mp4'', ''quick_audio'',
           ''audio'', ''video'', ''video'']"
    by (cases ?r) simp_all
  note t = option_list_numbered_in_sections [OF o(1)]
  from o(1) t [THEN conjunct1] o(2) show ?thesis
    by (intro exI [of _ options] conjI)
qed

section \<open>Keywords in the text of the format list\<close>

lemma sublist_inside: "sublist e j \<Longrightarrow> sublist e (a @ j @ b)"
proof -
  assume "sublist e j"
  then obtain p s where "j = p @ e @ s"
    by (auto simp: sublist_def)
  then have "a @ j @ b = (a @ p) @ e @ (s @ b)"
    by simp
  then show ?thesis
    unfolding sublist_def by blast
qed

lemma concat_escape_plain:
  "\<forall>c \<in> set k. escape_char q c = [c] \<Longrightarrow> concat (map (escape_char q) k) = k"
  by (induction k) auto

lemma sublist_repr_str:
  assumes "sublist k s"
    and "\<forall>c \<in> set k. escape_char single_quote c = [c] \<and> escape_char double_quote c = [c]"
  shows "sublist k (repr_str s)"
proof -
  from assms(1) obtain ps ss where s: "s = ps @ k @ ss"
    by (auto simp: sublist_def)
  have "sublist k ([q] @ concat (map (escape_char q) s) @ [q])"
    if "q = single_quote \<or> q = double_quote" for q
  proof -
    have "concat (map (escape_char q) k) = k"
      using that assms(2) by (intro concat_escape_plain) auto
    then have "concat (map (escape_char q) s) =
        concat (map (escape_char q) ps) @ k @ concat (map (escape_char q) ss)"
      by (simp add: s)
    then have "sublist k (concat (map (escape_char q) s))"
      by simp
    then show ?thesis
      by (rule sublist_inside)
  qed
  then show ?thesis
    by (simp add: repr_str_def Let_def)
qed

lemma sublist_join: "x \<in> set xs \<Longrightarrow> sublist x (join sep xs)"
proof (induction sep xs rule: join.induct)
  case (1 sep)
  then show ?case by simp
next
  case (2 sep y)
  then show ?case by simp
next
  case (3 sep y z zs)
  show ?case
  proof (cases "x = y")
    case True
    then show ?thesis by simp
  next
    case False
    with 3 have "sublist x (join sep (z # zs))"
      by simp
    then have "sublist x ((y @ sep) @ join sep (z # zs) @ [])"
      by (rule sublist_inside)
    then show ?thesis by simp
  qed
qed

lemma sublist_trans: "sublist a b \<Longrightarrow> sublist b c \<Longrightarrow> sublist a c"
  by (rule sublist_order.order_trans)

lemma note_in_repr_fmt:
  assumes "format_note f = Val n"
  shows "sublist (repr_str n) (repr_fmt f)"
proof -
  let ?item = "repr_str ''format_note'' @ '': '' @ repr_str n"
  let ?items = "dict_item ''format_id'' repr_text (Val (format_id f)) @
        dict_item ''ext'' repr_text (Val (ext f)) @
        dict_item ''resolution'' repr_text (resolution f) @
        dict_item ''height'' repr_num (height f) @
        dict_item ''width'' repr_num (width f) @
        dict_item ''filesize'' repr_num (filesize f) @
        dict_item ''vcodec'' repr_text (vcodec f) @
        dict_item ''acodec'' repr_text (acodec f) @
        dict_item ''fps'' repr_num (fps f) @
        dict_item ''vbr'' repr_num (vbr f) @
        dict_item ''abr'' repr_num (abr f) @
        dict_item ''type'' repr_text (type f) @
        dict_item ''video_types'' repr_texts (video_types f) @
        dict_item ''format_note'' repr_text (format_note f)"
  have "dict_item ''format_note'' repr_text (format_note f) = [?item]"
    by (simp add: assms)
  then have "?item \<in> set ?items"
    by (simp del: dict_item.simps)
  then have "sublist ?item (join '', '' ?items)"
    by (rule sublist_join)
  then have "sublist ?item (''{'' @ join '', '' ?items @ ''}'')"
    by (rule sublist_inside)
  then have "sublist ?item (repr_fmt f)"
    by (simp only: repr_fmt_def)
  moreover have "sublist (repr_str n) ?item"
    using sublist_inside [of "repr_str n" "repr_str n" "repr_str ''format_note'' @ '': ''" "[]"]
    by simp
  ultimately show ?thesis
    using sublist_trans by blast
qed

lemma repr_fmt_in_str_formats: "f \<in> set fs \<Longrightarrow> sublist (repr_fmt f) (str_formats fs)"
proof -
  assume "f \<in> set fs"
  then have "repr_fmt f \<in> set (map repr_fmt fs)"
    by simp
  then have "sublist (repr_fmt f) (join '', '' (map repr_fmt fs))"
    by (rule sublist_join)
  then show ?thesis
    unfolding str_formats_def repr_list_def by (rule sublist_inside)
qed

lemma sbs_keywords_plain:
  "\<forall>kw \<in> {''sbs'', ''side by side'', ''side-by-side''}.
     \<forall>c \<in> set kw. escape_char single_quote c = [c] \<and> escape_char double_quote c = [c]"
  by code_simp

lemma note_keyword_in_str_formats:
  assumes "f \<in> set fs" and "format_note f = Val n" and "sublist kw n"
    and "kw \<in> {''sbs'', ''side by side'', ''side-by-side''}"
  shows "sublist kw (str_formats fs)"
proof -
  have "\<forall>c \<in> set kw. escape_char single_quote c = [c] \<and> escape_char double_quote c = [c]"
    using sbs_keywords_plain assms(4) by blast
  with assms(3) have "sublist kw (repr_str n)"
    by (rule sublist_repr_str)
  then have "sublist kw (repr_fmt f)"
    using note_in_repr_fmt [OF assms(2)] sublist_trans by blast
  then show ?thesis
    using repr_fmt_in_str_formats [OF assms(1)] sublist_trans by blast
qed

section \<open>The VR options\<close>

lemma vr_check_Some:
  assumes "lower_of (get_default (title i) '''') = Inr ttl"
    and "lower_of (get_default (description i) '''') = Inr desc"
  shows "vr_check (Some i) = Inr (is_vr_content ttl desc, ttl, desc)"
  using assms by (simp add: vr_check_def)

text \<open>
  Claim C10. When the lower-cased title or description holds one of the indicators 360, vr,
  180, 3d, stereoscopic, virtual reality, the option list starts with the options
  \<^verbatim>\<open>vr_360_video\<close>, \<^verbatim>\<open>vr_180_video\<close> and \<^verbatim>\<open>3d_video\<close> in this order, with
  no further condition. Only the option \<^verbatim>\<open>3d_180_sbs_video\<close> before them has one:
  the title or the description holds both 3d and 180, or one of the keywords sbs, side by
  side, side-by-side occurs in the title, in the description or in the text of the whole
  list of video formats. In particular a keyword in the note of a video format is enough.
\<close>

theorem vr_special_options_emitted:
  assumes "lower_of (get_default (title i) '''') = Inr ttl"
    and "lower_of (get_default (description i) '''') = Inr desc"
    and "\<exists>indicator \<in> set [''360'', ''vr'', ''180'', ''3d'', ''stereoscopic'', ''virtual reality''].
           sublist indicator ttl \<or> sublist indicator desc"
    and "display_format_options video_formats audio_formats (Some i) = Inr options"
  shows "(\<exists>rest. map opt_type options =
            (if (sublist ''3d'' ttl \<and> sublist ''180'' ttl)
                \<or> (sublist ''3d'' desc \<and> sublist ''180'' desc)
                \<or> (\<exists>text \<in> {ttl, desc, str_formats video_formats}.
                      sublist ''sbs'' text \<or> sublist ''side by side'' text
                      \<or> sublist ''side-by-side'' text)
             then [''3d_180_sbs_video''] else []) @
            [''vr_360_video'', ''vr_180_video'', ''3d_video''] @ rest)
       \<and> ((\<exists>f \<in> set video_formats. \<exists>n. \<exists>kw \<in> {''sbs'', ''side by side'', ''side-by-side''}.
              format_note f = Val n \<and> sublist kw n) \<longrightarrow>
            (\<exists>rest. map opt_type options =
               [''3d_180_sbs_video'', ''vr_360_video'', ''vr_180_video'', ''3d_video''] @ rest))"
proof -
  let ?cond = "(sublist ''3d'' ttl \<and> sublist ''180'' ttl)
                \<or> (sublist ''3d'' desc \<and> sublist ''180'' desc)
                \<or> (\<exists>text \<in> {ttl, desc, str_formats video_formats}.
                      sublist ''sbs'' text \<or> sublist ''side by side'' text
                      \<or> sublist ''side-by-side'' text)"
  have fires: "is_vr_content ttl desc"
    using assms(3) by (simp add: is_vr_content_def vr_indicators_def)
  have cond: "has_3d_180 ttl desc \<or> has_sbs ttl desc (str_formats video_formats) \<longleftrightarrow> ?cond"
    by (simp add: has_3d_180_def has_sbs_def)
  from display_decomposition [OF assms(4)]
  obtain vr ttl' desc' vrx q au vi where d:
      "vr_check (Some i) = Inr (vr, ttl', desc')"
      "options = vrx @ q @ au @ vi"
      "map opt_type vrx =
        (if vr
         then (if has_3d_180 ttl' desc' \<or> has_sbs ttl' desc' (str_formats video_formats)
               then [''3d_180_sbs_video''] else []) @
              [''vr_360_video'', ''vr_180_video'', ''3d_video'']
         else [])"
    by (elim exE conjE)
  from d(1) have same: "vr" "ttl' = ttl" "desc' = desc"
    using fires by (simp_all add: vr_check_Some [OF assms(1,2)])
  have vrx: "map opt_type vrx =
      (if ?cond then [''3d_180_sbs_video''] else []) @
      [''vr_360_video'', ''vr_180_video'', ''3d_video'']"
    using d(3) unfolding same(2,3) cond by (simp only: same(1) if_True)
  have types: "map opt_type options =
      (if ?cond then [''3d_180_sbs_video''] else []) @
      [''vr_360_video'', ''vr_180_video'', ''3d_video''] @ map opt_type (q @ au @ vi)"
    unfolding d(2) map_append [of opt_type vrx] vrx by simp
  then have first: "\<exists>rest. map opt_type options =
      (if ?cond then [''3d_180_sbs_video''] else []) @
      [''vr_360_video'', ''vr_180_video'', ''3d_video''] @ rest"
    by (rule exI)
  have second: "\<exists>rest. map opt_type options =
               [''3d_180_sbs_video'', ''vr_360_video'', ''vr_180_video'', ''3d_video''] @ rest"
    if "\<exists>f \<in> set video_formats. \<exists>n. \<exists>kw \<in> {''sbs'', ''side by side'', ''side-by-side''}.
              format_note f = Val n \<and> sublist kw n"
  proof -
    from that obtain f n kw where f: "f \<in> set video_formats" "format_note f = Val n"
        "kw \<in> {''sbs'', ''side by side'', ''side-by-side''}" "sublist kw n"
      by blast
    have "sublist kw (str_formats video_formats)"
      by (rule note_keyword_in_str_formats [OF f(1) f(2) f(4) f(3)])
    with f(3) have "sublist ''sbs'' (str_formats video_formats)
        \<or> sublist ''side by side'' (str_formats video_formats)
        \<or> sublist ''side-by-side'' (str_formats video_formats)"
      by blast
    then have ?cond
      by blast
    with types have "map opt_type options =
        [''3d_180_sbs_video'', ''vr_360_video'', ''vr_180_video'', ''3d_video'']
          @ map opt_type (q @ au @ vi)"
      by simp
    then show ?thesis
      by (rule exI)
  qed
  from first second show ?thesis
    by blast
qed

text \<open>
  The title \<^verbatim>\<open>VR clip\<close> has no keyword of the side-by-side check; the note of the
  format has.
\<close>

theorem vr_special_options_emitted_witness:
  "\<exists>options rest.
      display_format_options (fst (snd (get_video_info (Some sbs_note_info)))) []
        (Some sbs_note_info) = Inr options
    \<and> \<not> sublist ''sbs'' ''vr clip''
    \<and> map opt_type options =
        [''3d_180_sbs_video'', ''vr_360_video'', ''vr_180_video'', ''3d_video''] @ rest"
proof -
  let ?d = "(descriptor ''313'' ''webm'')\<lparr>vcodec := Val ''vp9'', acodec := Val ''opus'',
            format_note := Val ''sbs left-right''\<rparr>"
  let ?v = "fst (snd (get_video_info (Some sbs_note_info)))"
  let ?r = "display_format_options ?v [] (Some sbs_note_info)"
  have t: "lower_of (get_default (title sbs_note_info) '''') = Inr ''vr clip''"
    by code_simp
  have s: "lower_of (get_default (description sbs_note_info) '''') = Inr []"
    by code_simp
  have i: "\<exists>indicator \<in> set [''360'', ''vr'', ''180'', ''3d'', ''stereoscopic'', ''virtual reality''].
           sublist indicator ''vr clip'' \<or> sublist indicator []"
    by code_simp
  have n: "\<not> sublist ''sbs'' ''vr clip''"
    by code_simp
  have v: "?v = [video_audio_entry ?d [SBS3D, VR]]"
    by code_simp
  have k: "sublist ''sbs'' ''sbs left-right''"
    by code_simp
  have "case ?r of Inl e \<Rightarrow> False | Inr options \<Rightarrow> True"
    by code_simp
  then obtain options where o: "?r = Inr options"
    by (cases ?r) simp_all
  have "\<exists>f \<in> set ?v. \<exists>n. \<exists>kw \<in> {''sbs'', ''side by side'', ''side-by-side''}.
              format_note f = Val n \<and> sublist kw n"
    unfolding v using k by (simp add: video_audio_entry_def descriptor_def)
  with vr_special_options_emitted [OF t s i o]
  obtain rest where "map opt_type options =
        [''3d_180_sbs_video'', ''vr_360_video'', ''vr_180_video'', ''3d_video''] @ rest"
    by (elim conjE impE exE)
  with o n show ?thesis
    by (intro exI [of _ options] exI [of _ rest] conjI)
qed

section \<open>Inputs for which the option list is produced\<close>

lemma lower_of_default: "x \<noteq> PyNone \<Longrightarrow> \<exists>s. lower_of (get_default x d) = Inr s"
  by (cases x) auto

lemma detect_video_type_total:
  assumes "format_note f \<noteq> PyNone" and "title i \<noteq> PyNone" and "description i \<noteq> PyNone"
  shows "\<exists>vts. detect_video_type f (Some i) = Inr vts"
proof -
  obtain a where a: "lower_of (get_default (format_note f) '''') = Inr a"
    using lower_of_default [OF assms(1)] by blast
  obtain b where b: "lower_of (get_default (title i) '''') = Inr b"
    using lower_of_default [OF assms(2)] by blast
  obtain c where c: "lower_of (get_default (description i) '''') = Inr c"
    using lower_of_default [OF assms(3)] by blast
  show ?thesis
    by (simp add: detect_video_type_def detect_texts_def info_text_def a b c)
qed

lemma video_entry_listable:
  assumes "vcodec f \<noteq> PyNone" and "acodec f \<noteq> PyNone"
  shows "(\<exists>k. video_key (video_audio_entry f vts) = Inr k)
       \<and> video_line (video_audio_entry f vts) = Inr ()
       \<and> (\<exists>k. video_key (video_only_entry f vts) = Inr k)
       \<and> video_line (video_only_entry f vts) = Inr ()"
  using assms
  by (cases "vcodec f"; cases "acodec f")
     (simp_all add: video_key_def video_line_def video_audio_entry_def video_only_entry_def)

lemma classify_total:
  assumes "\<forall>f \<in> set fs. format_note f \<noteq> PyNone \<and> vcodec f \<noteq> PyNone \<and> acodec f \<noteq> PyNone"
    and "title i \<noteq> PyNone" and "description i \<noteq> PyNone"
    and "\<forall>e \<in> set vs0. (\<exists>k. video_key e = Inr k) \<and> video_line e = Inr ()"
  shows "\<exists>vs as. classify (Some i) fs (vs0, as0) = Inr (vs, as)
           \<and> (\<forall>e \<in> set vs. (\<exists>k. video_key e = Inr k) \<and> video_line e = Inr ())"
  using assms(1,4)
proof (induction fs arbitrary: vs0 as0)
  case Nil
  then show ?case by simp
next
  case (Cons f rest)
  from Cons.prems(1) have f: "format_note f \<noteq> PyNone" "vcodec f \<noteq> PyNone" "acodec f \<noteq> PyNone"
    by simp_all
  obtain vts where d: "detect_video_type f (Some i) = Inr vts"
    using detect_video_type_total [OF f(1) assms(2,3)] by blast
  obtain vs1 as1 where b: "bucket f vts (vs0, as0) = (vs1, as1)"
    by (cases "bucket f vts (vs0, as0)")
  have "set vs1 \<subseteq> set vs0 \<union> {video_audio_entry f vts, video_only_entry f vts}"
    using b by (auto split: if_splits)
  then have r2: "\<forall>e \<in> set vs1. (\<exists>k. video_key e = Inr k) \<and> video_line e = Inr ()"
    using Cons.prems(2) video_entry_listable [OF f(2,3), of vts] by blast
  have r1: "\<forall>f \<in> set rest. format_note f \<noteq> PyNone \<and> vcodec f \<noteq> PyNone \<and> acodec f \<noteq> PyNone"
    using Cons.prems(1) by simp
  have "\<exists>vs as. classify (Some i) rest (vs1, as1) = Inr (vs, as)
           \<and> (\<forall>e \<in> set vs. (\<exists>k. video_key e = Inr k) \<and> video_line e = Inr ())"
    by (rule Cons.IH [OF r1 r2])
  moreover have "classify (Some i) (f # rest) (vs0, as0) = classify (Some i) rest (vs1, as1)"
    by (simp add: d b del: bucket.simps)
  ultimately show ?case
    by simp
qed

lemma video_loop_total:
  assumes "\<forall>e \<in> set fs. (\<exists>k. video_key e = Inr k) \<and> video_line e = Inr ()"
  shows "\<exists>st'. video_loop fs seen st = Inr st'"
  using assms
proof (induction fs arbitrary: seen st)
  case Nil
  show ?case by simp
next
  case (Cons f rest)
  then obtain k where k: "video_key f = Inr k" and l: "video_line f = Inr ()"
    by auto
  from Cons show ?case
    by (simp add: k l)
qed

text \<open>
  When neither the title, the description nor the list of formats holds \<^verbatim>\<open>None\<close>,
  and no format holds \<^verbatim>\<open>None\<close> under its note or codec keys, an option list is
  produced: every other key may be missing or hold \<^verbatim>\<open>None\<close>.
\<close>

lemma option_list_total:
  assumes "title i \<noteq> PyNone" and "description i \<noteq> PyNone"
    and "get_default (formats i) [] = Some fs"
    and "\<forall>f \<in> set fs. format_note f \<noteq> PyNone \<and> vcodec f \<noteq> PyNone \<and> acodec f \<noteq> PyNone"
  shows "\<exists>options. option_list (Some i) = Some (Inr options)"
proof -
  from classify_total [OF assms(4) assms(1,2), of "[]" "[]"]
  obtain vs as where c: "classify (Some i) fs ([], []) = Inr (vs, as)"
      and ok: "\<forall>e \<in> set vs. (\<exists>k. video_key e = Inr k) \<and> video_line e = Inr ()"
    by auto
  have g: "get_video_info (Some i) = (Some i, vs, as)"
    by (simp add: get_video_info_def classify_formats_def assms(3) c)
  obtain t where t: "lower_of (get_default (title i) '''') = Inr t"
    using lower_of_default [OF assms(1)] by blast
  obtain d where d: "lower_of (get_default (description i) '''') = Inr d"
    using lower_of_default [OF assms(2)] by blast
  have v: "vr_check (Some i) = Inr (is_vr_content t d, t, d)"
    by (simp add: vr_check_def t d)
  have "\<forall>e \<in> set (sort_reverse sort_key_video vs).
          (\<exists>k. video_key e = Inr k) \<and> video_line e = Inr ()"
    using ok by (simp add: sort_reverse_set)
  from video_loop_total [OF this]
  have "\<exists>options. options_from vs as (is_vr_content t d, t, d) = Inr options"
    by (simp add: ebind_Inr_iff)
  then show ?thesis
    by (simp add: option_list_def g display_format_options_def v)
qed

section \<open>A text field that holds None\<close>

text \<open>
  Claim C3 fails on the code for a video whose description key holds \<^verbatim>\<open>None\<close>:
  \<^verbatim>\<open>info.get('description', '')\<close> is then \<^verbatim>\<open>None\<close>, not the default, and
  \<^verbatim>\<open>.lower()\<close> raises. \<^verbatim>\<open>detect_video_type\<close> raises for every format, the
  handler of \<^verbatim>\<open>get_video_info\<close> turns the error into a result without metadata
  and without formats, so that no option list is built; \<^verbatim>\<open>display_format_options\<close>
  raises on the same metadata.
\<close>

theorem none_description_raises:
  "detect_video_type
      ((descriptor ''18'' ''mp4'')\<lparr>vcodec := Val ''avc1.42001E'', acodec := Val ''mp4a.40.2''\<rparr>)
      (Some none_description_info) = Inl AttributeError
   \<and> classify_formats none_description_info = Inl AttributeError
   \<and> get_video_info (Some none_description_info) = (None, [], [])
   \<and> option_list (Some none_description_info) = None
   \<and> display_format_options [] [] (Some none_description_info) = Inl AttributeError"
  by code_simp

end
